theory Spec2Isabelle
  imports Main
begin

section \<open>Column-name normalisation (datasets/base.py)\<close>

text \<open>
  \<^verbatim>\<open>standardize_column_names\<close> maps every column label through
  \<^verbatim>\<open>.str.lower()\<close>, then \<^verbatim>\<open>.str.replace(r'[^\w\s]', '', regex=True)\<close>, then
  \<^verbatim>\<open>.str.replace(r'\s+', '_', regex=True)\<close>.

  Python strings are sequences of Unicode code points, and the three library notions the
  method relies on (the lower-casing of a string, the class \<^verbatim>\<open>\w\<close>, the class
  \<^verbatim>\<open>\s\<close>) are those of the Python runtime. They are taken as parameters, together
  with the code point of the underscore, so that the method itself is translated once and
  for any alphabet. \<open>ascii_text\<close> below is the instance for 8-bit characters with the
  ASCII classes.
\<close>

record 'c text_ops =
  str_lower :: "'c list \<Rightarrow> 'c list"
  is_word :: "'c \<Rightarrow> bool"
  is_space :: "'c \<Rightarrow> bool"
  underscore :: "'c"

text \<open>\<^verbatim>\<open>re.sub(r'[^\w\s]', '', s)\<close>: every character that is neither a word character nor
  white space is deleted.\<close>

definition strip_punctuation :: "'c text_ops \<Rightarrow> 'c list \<Rightarrow> 'c list" where
  "strip_punctuation T s = filter (\<lambda>c. is_word T c \<or> is_space T c) s"

text \<open>\<^verbatim>\<open>re.sub(r'\s+', '_', s)\<close>: scanning from the left, every maximal run of white space
  is replaced by one underscore.\<close>

function sub_spaces :: "'c text_ops \<Rightarrow> 'c list \<Rightarrow> 'c list" where
  "sub_spaces T [] = []"
| "sub_spaces T (c # cs) =
     (if is_space T c then underscore T # sub_spaces T (dropWhile (is_space T) cs)
      else c # sub_spaces T cs)"
  by pat_completeness auto
termination
  by (relation "measure (\<lambda>(T, s). length s)")
     (auto simp: length_dropWhile_le less_Suc_eq_le)

definition standardize_name :: "'c text_ops \<Rightarrow> 'c list \<Rightarrow> 'c list" where
  "standardize_name T s = sub_spaces T (strip_punctuation T (str_lower T s))"

text \<open>The method works on a copy of the frame and replaces its labels; the cells are not
  touched. A frame is given here by its labelled columns.\<close>

definition standardize_column_names ::
  "'c text_ops \<Rightarrow> ('c list \<times> 'v list) list \<Rightarrow> ('c list \<times> 'v list) list" where
  "standardize_column_names T df = map (\<lambda>(l, xs). (standardize_name T l, xs)) df"

subsection \<open>The ASCII instance\<close>

definition ascii_lower :: "char \<Rightarrow> char" where
  "ascii_lower c =
     (let n = (of_char c :: nat) in if 65 \<le> n \<and> n \<le> 90 then char_of (n + 32) else c)"

definition ascii_word :: "char \<Rightarrow> bool" where
  "ascii_word c =
     (let n = (of_char c :: nat)
      in (48 \<le> n \<and> n \<le> 57) \<or> (65 \<le> n \<and> n \<le> 90) \<or> (97 \<le> n \<and> n \<le> 122) \<or> n = 95)"

definition ascii_space :: "char \<Rightarrow> bool" where
  "ascii_space c = (let n = (of_char c :: nat) in (9 \<le> n \<and> n \<le> 13) \<or> n = 32)"

definition ascii_text :: "char text_ops" where
  "ascii_text =
     \<lparr>str_lower = map ascii_lower, is_word = ascii_word, is_space = ascii_space,
      underscore = CHR ''_''\<rparr>"


section \<open>Python values, frames and the log\<close>

text \<open>
  The cells of a pandas frame are Python objects. The constructors below are the kinds of
  object the transformer can meet: what a JSON extract holds (\<open>PyNone\<close>, the float
  \<open>NaN\<close> that pandas uses for a missing entry, booleans, strings, numbers other than
  NaN, an empty dict or list, a dict or list with entries) and what the transformer itself
  writes (\<open>WKTElement\<close> with its text and SRID, the time stamp of the ingestion). The
  type \<open>'n\<close> of numbers and the type \<open>'j\<close> of structured JSON values stay open.
\<close>

datatype ('n, 'j) pyval =
    PyNone
  | NaN
  | PBool bool
  | PStr string
  | PNum 'n
  | PEmpty
  | PObj 'j
  | WKTElement string nat
  | Timestamp nat

text \<open>Python's truth value of an object, as \<^verbatim>\<open>not geom_data\<close> tests it: \<^verbatim>\<open>None\<close>,
  \<^verbatim>\<open>False\<close>, zero, the empty string and empty containers are false; everything else,
  the float NaN included, is true.\<close>

fun truthy :: "('n::zero, 'j) pyval \<Rightarrow> bool" where
  "truthy PyNone = False"
| "truthy NaN = True"
| "truthy (PBool b) = b"
| "truthy (PStr s) = (s \<noteq> [])"
| "truthy (PNum n) = (n \<noteq> 0)"
| "truthy PEmpty = False"
| "truthy (PObj j) = True"
| "truthy (WKTElement w srid) = True"
| "truthy (Timestamp t) = True"

text \<open>A null of pandas: \<^verbatim>\<open>None\<close> or NaN.\<close>

definition is_null :: "('n, 'j) pyval \<Rightarrow> bool" where
  "is_null v = (v = PyNone \<or> v = NaN)"

text \<open>
  The library calls of the transformer whose results depend on code outside the
  repository are parameters:
  \<^item> \<open>to_number\<close>: the number \<^verbatim>\<open>pd.to_numeric\<close> reads a scalar as, \<open>None\<close> where it
    cannot read one;
  \<^item> \<open>json_loads\<close>: \<^verbatim>\<open>json.loads\<close>, with \<open>Inl\<close> the message of the exception it raises;
  \<^item> \<open>shape_wkt\<close>: \<^verbatim>\<open>shape(geom_dict).wkt\<close> of shapely, with \<open>Inl\<close> the message of the
    exception raised on the way.
\<close>

record ('n, 'j) library =
  to_number :: "('n, 'j) pyval \<Rightarrow> 'n option"
  json_loads :: "string \<Rightarrow> string + ('n, 'j) pyval"
  shape_wkt :: "('n, 'j) pyval \<Rightarrow> string + string"

datatype log_entry = LogInfo string | LogWarning string | LogError string

text \<open>Python's \<^verbatim>\<open>str\<close> of a natural number and of an integer.\<close>

function str_nat :: "nat \<Rightarrow> string" where
  "str_nat n =
     (if n < 10 then [char_of (48 + n)] else str_nat (n div 10) @ [char_of (48 + n mod 10)])"
  by pat_completeness auto
termination
  by (relation "measure id") auto

declare str_nat.simps [simp del]

definition str_int :: "int \<Rightarrow> string" where
  "str_int i = (if i < 0 then CHR ''-'' # str_nat (nat (- i)) else str_nat (nat i))"

text \<open>\<^verbatim>\<open>sep.join(xs)\<close>.\<close>

fun join :: "string \<Rightarrow> string list \<Rightarrow> string" where
  "join sep [] = []"
| "join sep [x] = x"
| "join sep (x # y # ys) = x @ sep @ join sep (y # ys)"

text \<open>\<^verbatim>\<open>s.startswith(p)\<close>.\<close>

definition startswith :: "string \<Rightarrow> string \<Rightarrow> bool" where
  "startswith s p = (take (length p) s = p)"

text \<open>
  A frame: the length of its index and its labelled columns, in order. \<open>labels\<close> is
  \<^verbatim>\<open>df.columns\<close>. The operations below are those of pandas on a frame whose labels are
  pairwise different; what pandas does with repeated labels is not modelled, and the
  theorems about \<open>transform\<close> assume \<open>wf_raw\<close>.
\<close>

record 'v frame =
  nrows :: nat
  cols :: "(string \<times> 'v list) list"

definition labels :: "'v frame \<Rightarrow> string list" where
  "labels df = map fst (cols df)"

text \<open>\<^verbatim>\<open>df[l]\<close>, with \<open>None\<close> for the \<^verbatim>\<open>KeyError\<close> of an absent label.\<close>

definition get_column :: "string \<Rightarrow> 'v frame \<Rightarrow> 'v list option" where
  "get_column l df = map_of (cols df) l"

text \<open>The cell of column \<open>l\<close> in row \<open>i\<close>, where there is one.\<close>

definition cell :: "'v frame \<Rightarrow> string \<Rightarrow> nat \<Rightarrow> 'v option" where
  "cell df l i =
     (case get_column l df of
        None \<Rightarrow> None
      | Some xs \<Rightarrow> if i < length xs then Some (xs ! i) else None)"

text \<open>\<^verbatim>\<open>df[l] = xs\<close>: an existing column is replaced where it stands, a new one is added
  at the end.\<close>

definition set_column :: "string \<Rightarrow> 'v list \<Rightarrow> 'v frame \<Rightarrow> 'v frame" where
  "set_column l xs df =
     (if l \<in> set (labels df)
      then df\<lparr>cols := map (\<lambda>(l', ys). if l' = l then (l', xs) else (l', ys)) (cols df)\<rparr>
      else df\<lparr>cols := cols df @ [(l, xs)]\<rparr>)"

text \<open>\<^verbatim>\<open>df.rename(columns=m)\<close>: a label that is a key of \<open>m\<close> is replaced by its value.\<close>

definition rename_label :: "(string \<times> string) list \<Rightarrow> string \<Rightarrow> string" where
  "rename_label m l = (case map_of m l of Some l' \<Rightarrow> l' | None \<Rightarrow> l)"

definition rename :: "(string \<times> string) list \<Rightarrow> 'v frame \<Rightarrow> 'v frame" where
  "rename m df = df\<lparr>cols := map (\<lambda>(l, xs). (rename_label m l, xs)) (cols df)\<rparr>"

text \<open>\<^verbatim>\<open>df[ls]\<close> for a list of labels: the columns carrying these labels, in the order of
  the list.\<close>

definition select_columns :: "string list \<Rightarrow> 'v frame \<Rightarrow> 'v frame" where
  "select_columns ls df =
     df\<lparr>cols := concat (map (\<lambda>l. filter (\<lambda>c. fst c = l) (cols df)) ls)\<rparr>"

text \<open>\<^verbatim>\<open>df.to_dict('records')\<close>: one dict per row, keyed by the labels.\<close>

definition to_records :: "'v frame \<Rightarrow> (string \<times> 'v) list list" where
  "to_records df = map (\<lambda>i. map (\<lambda>(l, xs). (l, xs ! i)) (cols df)) [0..<nrows df]"

section \<open>The transformer (datasets/base.py, datasets/ntas\_2020/transformer.py)\<close>

text \<open>
  The classes of the dataset's configuration live in a module of their own
  (\<^verbatim>\<open>src.config\<close>). \<open>transform\<close> reads \<^verbatim>\<open>self.config.data_schema.columns\<close> and, for every declared column,
  the flags \<open>required\<close> and \<open>primary_key\<close>; these are the fields kept here.
\<close>

record column_schema =
  required :: bool
  primary_key :: bool

record data_schema =
  ds_columns :: "(string \<times> column_schema) list"

record dataset_config =
  data_schema :: data_schema

record transformer =
  dataset_id :: string
  dataset_name :: string
  config :: dataset_config

text \<open>The exceptions of the pipeline. \<open>MissingColumns\<close> is the \<^verbatim>\<open>ValueError\<close> of
  \<^verbatim>\<open>validate_required_columns\<close>; its message is
  \<^verbatim>\<open>f"Missing required columns for {self.dataset_name}: {missing_columns}"\<close>, in which
  Python prints the set in an order of its own, so the exception is kept as the dataset
  name and the set. \<open>BaseExn\<close> stands for an exception that is not an instance of
  \<^verbatim>\<open>Exception\<close> (an interrupt, a cancellation).\<close>

datatype exn =
    MissingColumns string "string set"
  | ValueError string
  | KeyError string
  | DatabaseError string
  | HTTPException nat string
  | BaseExn string

definition add_metadata ::
  "transformer \<Rightarrow> nat \<Rightarrow> ('n, 'j) pyval frame \<Rightarrow> ('n, 'j) pyval frame" where
  "add_metadata self now df =
     (let df1 = set_column ''dataset_id'' (replicate (nrows df) (PStr (dataset_id self))) df
      in set_column ''ingestion_timestamp'' (replicate (nrows df1) (Timestamp now)) df1)"

definition validate_required_columns ::
  "transformer \<Rightarrow> 'v frame \<Rightarrow> string list \<Rightarrow> exn + unit" where
  "validate_required_columns self df required_columns =
     (let missing_columns = set required_columns - set (labels df)
      in if missing_columns \<noteq> {}
         then Inl (MissingColumns (dataset_name self) missing_columns)
         else Inr ())"

definition column_mapping :: "(string \<times> string) list" where
  "column_mapping =
     [(''borocode'', ''boro_code''), (''boroname'', ''boro_name''),
      (''countyfips'', ''county_fips''), (''nta2020'', ''nta2020''),
      (''ntaname'', ''nta_name''), (''ntaabbrev'', ''nta_abbrev''),
      (''ntatype'', ''nta_type''), (''cdta2020'', ''cdta2020''),
      (''cdtaname'', ''cdta_name''), (''shape_leng'', ''shape_leng''),
      (''shape_area'', ''shape_area''), (''the_geom'', ''geom'')]"

definition numeric_cols :: "string list" where
  "numeric_cols = [''boro_code'', ''shape_leng'', ''shape_area'']"

text \<open>\<^verbatim>\<open>pd.to_numeric(series, errors='coerce')\<close> on one entry: the number read, or NaN.\<close>

definition to_numeric :: "('n, 'j) library \<Rightarrow> ('n, 'j) pyval \<Rightarrow> ('n, 'j) pyval" where
  "to_numeric lib v = (case to_number lib v of Some n \<Rightarrow> PNum n | None \<Rightarrow> NaN)"

text \<open>One turn of the loop over \<open>numeric_cols\<close>:
  \<^verbatim>\<open>if col in df.columns: df[col] = pd.to_numeric(df[col], errors='coerce')\<close>.\<close>

definition convert_numeric ::
  "('n, 'j) library \<Rightarrow> string \<Rightarrow> ('n, 'j) pyval frame \<Rightarrow> ('n, 'j) pyval frame" where
  "convert_numeric lib col df =
     (case get_column col df of
        None \<Rightarrow> df
      | Some xs \<Rightarrow> set_column col (map (to_numeric lib) xs) df)"

text \<open>\<^verbatim>\<open>_convert_geometry\<close>, returning the warnings it logs beside its result.\<close>

definition convert_geometry ::
  "('n::zero, 'j) library \<Rightarrow> ('n, 'j) pyval \<Rightarrow> log_entry list \<times> ('n, 'j) pyval" where
  "convert_geometry lib geom_data =
     (if \<not> truthy geom_data then ([], PyNone)
      else
        case (case geom_data of PStr s \<Rightarrow> json_loads lib s | _ \<Rightarrow> Inr geom_data) of
          Inl e \<Rightarrow> ([LogWarning (''Failed to convert geometry: '' @ e)], PyNone)
        | Inr geom_dict \<Rightarrow>
            (case shape_wkt lib geom_dict of
               Inl e \<Rightarrow> ([LogWarning (''Failed to convert geometry: '' @ e)], PyNone)
             | Inr wkt \<Rightarrow> ([], WKTElement wkt 4326)))"

text \<open>\<^verbatim>\<open>series.apply(f)\<close> for an \<open>f\<close> that logs: the entries are visited in order.\<close>

definition apply_logged :: "('a \<Rightarrow> log_entry list \<times> 'b) \<Rightarrow> 'a list \<Rightarrow> log_entry list \<times> 'b list" where
  "apply_logged f xs = (concat (map (\<lambda>x. fst (f x)) xs), map (\<lambda>x. snd (f x)) xs)"

definition required_cols :: "transformer \<Rightarrow> string list" where
  "required_cols self =
     map fst (filter (\<lambda>(name, schema). required schema \<or> primary_key schema)
                     (ds_columns (data_schema (config self))))"

text \<open>\<^verbatim>\<open>Ntas2020Transformer.transform\<close>. \<open>now\<close> is the reading of the clock by
  \<^verbatim>\<open>datetime.now()\<close>. The result is the log written and either the exception raised or
  the frame returned.\<close>

definition transform ::
  "('n::zero, 'j) library \<Rightarrow> transformer \<Rightarrow> nat \<Rightarrow> ('n, 'j) pyval frame \<Rightarrow>
     log_entry list \<times> (exn + ('n, 'j) pyval frame)" where
  "transform lib self now df0 =
     (let log0 = [LogInfo (''Transforming '' @ str_nat (nrows df0) @ '' NTA records'')];
          df1 = rename column_mapping df0;
          df2 = select_columns (filter (\<lambda>c. \<not> startswith c '':'') (labels df1)) df1;
          df3 = fold (convert_numeric lib) numeric_cols df2;
          (log1, df4) =
            (case get_column ''geom'' df3 of
               None \<Rightarrow> ([], df3)
             | Some xs \<Rightarrow>
                 (let (ws, ys) = apply_logged (convert_geometry lib) xs
                  in (ws, set_column ''geom'' ys df3)));
          df5 = add_metadata self now df4
      in case validate_required_columns self df5 (required_cols self) of
           Inl e \<Rightarrow> (log0 @ log1, Inl e)
         | Inr u \<Rightarrow> (log0 @ log1, Inr df5))"

text \<open>
  Frames the theorems speak about: rectangular, and with labels that are still pairwise
  different after the renaming (hence pairwise different before it).
\<close>

definition wf_raw :: "'v frame \<Rightarrow> bool" where
  "wf_raw df =
     (distinct (map (rename_label column_mapping) (labels df)) \<and>
      list_all (\<lambda>c. length (snd c) = nrows df) (cols df))"

text \<open>
  The columns present when the validation runs, in the words of the specification: the
  labels after the renaming, without the platform's bookkeeping columns, with the two
  metadata columns; and the required columns that are not among them.
\<close>

definition present_columns :: "'v frame \<Rightarrow> string list" where
  "present_columns df =
     filter (\<lambda>c. \<not> startswith c '':'') (map (rename_label column_mapping) (labels df)) @
     [''dataset_id'', ''ingestion_timestamp'']"

definition missing_columns :: "transformer \<Rightarrow> 'v frame \<Rightarrow> string set" where
  "missing_columns self df = set (required_cols self) - set (present_columns df)"

text \<open>What \<open>transform\<close> does to a single cell of the column that ends up under label
  \<open>l\<close>: numeric columns are coerced, the geometry is converted, anything else is passed
  on as it is.\<close>

definition clean_cell :: "('n::zero, 'j) library \<Rightarrow> string \<Rightarrow> ('n, 'j) pyval \<Rightarrow> ('n, 'j) pyval" where
  "clean_cell lib l v =
     (if l = ''geom'' then snd (convert_geometry lib v)
      else if l \<in> set numeric_cols then to_numeric lib v
      else v)"

text \<open>
  Names for the stages of \<open>transform\<close>, used by the proofs: the frame after the renaming,
  the selection and the numeric loop; the frame handed to the validation; the warnings of
  the geometry step.
\<close>

definition staged :: "('n, 'j) library \<Rightarrow> ('n, 'j) pyval frame \<Rightarrow> ('n, 'j) pyval frame" where
  "staged lib df0 =
     (let df1 = rename column_mapping df0
      in fold (convert_numeric lib) numeric_cols
           (select_columns (filter (\<lambda>c. \<not> startswith c '':'') (labels df1)) df1))"

definition cleaned ::
  "('n::zero, 'j) library \<Rightarrow> transformer \<Rightarrow> nat \<Rightarrow> ('n, 'j) pyval frame \<Rightarrow> ('n, 'j) pyval frame" where
  "cleaned lib self now df0 =
     add_metadata self now
       (case get_column ''geom'' (staged lib df0) of
          None \<Rightarrow> staged lib df0
        | Some xs \<Rightarrow>
            set_column ''geom'' (map (\<lambda>x. snd (convert_geometry lib x)) xs) (staged lib df0))"

definition geometry_warnings :: "('n::zero, 'j) library \<Rightarrow> ('n, 'j) pyval frame \<Rightarrow> log_entry list" where
  "geometry_warnings lib df0 =
     (case get_column ''geom'' (staged lib df0) of
        None \<Rightarrow> []
      | Some xs \<Rightarrow> concat (map (\<lambda>x. fst (convert_geometry lib x)) xs))"

text \<open>The message of the exception that the \<^verbatim>\<open>try\<close> block of \<^verbatim>\<open>_convert_geometry\<close>
  raises on a payload, if it raises one.\<close>

definition geometry_error :: "('n, 'j) library \<Rightarrow> ('n, 'j) pyval \<Rightarrow> string option" where
  "geometry_error lib geom_data =
     (case (case geom_data of PStr s \<Rightarrow> json_loads lib s | _ \<Rightarrow> Inr geom_data) of
        Inl e \<Rightarrow> Some e
      | Inr geom_dict \<Rightarrow>
          (case shape_wkt lib geom_dict of Inl e \<Rightarrow> Some e | Inr wkt \<Rightarrow> None))"

subsection \<open>A concrete library, transformer and frames\<close>

text \<open>An instance for evaluation: numbers are integers, written in decimal digits; one
  JSON text parses; one structure is a geometry.\<close>

definition demo_number :: "string \<Rightarrow> int option" where
  "demo_number s =
     (if s \<noteq> [] \<and> list_all (\<lambda>c. 48 \<le> (of_char c :: nat) \<and> (of_char c :: nat) \<le> 57) s
      then Some (foldl (\<lambda>a c. 10 * a + (int (of_char c) - 48)) 0 s)
      else None)"

definition demo_lib :: "(int, string) library" where
  "demo_lib =
     \<lparr>to_number = (\<lambda>v. case v of PNum n \<Rightarrow> Some n | PStr s \<Rightarrow> demo_number s | _ \<Rightarrow> None),
      json_loads = (\<lambda>s. if s = ''{point}'' then Inr (PObj ''point'') else Inl ''Expecting value''),
      shape_wkt = (\<lambda>v. case v of
                          PObj j \<Rightarrow> if j = ''point'' then Inr ''POINT (0 0)''
                                    else Inl ''Unknown geometry type''
                        | _ \<Rightarrow> Inl ''not a mapping'')\<rparr>"

definition demo_self :: transformer where
  "demo_self =
     \<lparr>dataset_id = ''9nt8-h7nd'', dataset_name = ''NTA 2020'',
      config = \<lparr>data_schema = \<lparr>ds_columns =
        [(''nta2020'', \<lparr>required = False, primary_key = True\<rparr>),
         (''boro_code'', \<lparr>required = True, primary_key = False\<rparr>),
         (''nta_name'', \<lparr>required = False, primary_key = False\<rparr>)]\<rparr>\<rparr>\<rparr>"

definition demo_raw :: "(int, string) pyval frame" where
  "demo_raw =
     \<lparr>nrows = 2,
      cols = [(''borocode'', [PStr ''3'', PStr ''abc'']),
              (''nta2020'', [PStr ''BK0101'', PStr ''BK0102'']),
              (''the_geom'', [PObj ''point'', PyNone]),
              ('':id'', [PStr ''row-1'', PStr ''row-2''])]\<rparr>"

definition demo_cleaned :: "(int, string) pyval frame" where
  "demo_cleaned =
     \<lparr>nrows = 2,
      cols = [(''boro_code'', [PNum 3, NaN]),
              (''nta2020'', [PStr ''BK0101'', PStr ''BK0102'']),
              (''geom'', [WKTElement ''POINT (0 0)'' 4326, PyNone]),
              (''dataset_id'', [PStr ''9nt8-h7nd'', PStr ''9nt8-h7nd'']),
              (''ingestion_timestamp'', [Timestamp 7, Timestamp 7])]\<rparr>"

definition demo_raw_bad_geom :: "(int, string) pyval frame" where
  "demo_raw_bad_geom =
     \<lparr>nrows = 3,
      cols = [(''borocode'', [PStr ''3'', PStr ''4'', PStr ''5'']),
              (''nta2020'', [PStr ''BK0101'', PStr ''BK0102'', PStr ''BK0103'']),
              (''the_geom'', [PStr ''not json'', PStr [], PStr ''{point}''])]\<rparr>"

definition demo_raw_short :: "(int, string) pyval frame" where
  "demo_raw_short =
     \<lparr>nrows = 1,
      cols = [(''countyfips'', [PStr ''061'']),
              (''ntaname'', [PStr ''Upper West Side'']),
              (''the_geom'', [PObj ''point''])]\<rparr>"

definition demo_raw_numeric :: "(int, string) pyval frame" where
  "demo_raw_numeric =
     \<lparr>nrows = 2,
      cols = [(''borocode'', [PStr ''3'', PStr ''abc'']),
              (''shape_leng'', [PStr ''10'', PStr ''12'']),
              (''nta2020'', [PStr ''BK0101'', PStr ''BK0102'']),
              (''the_geom'', [PObj ''point'', PObj ''point''])]\<rparr>"

section \<open>Schema descriptors\<close>

text \<open>
  The schema handed from \<^verbatim>\<open>get_schema\<close> to \<^verbatim>\<open>create_table_from_schema\<close> is a dict:
  \<^verbatim>\<open>table_name\<close>, \<^verbatim>\<open>columns\<close> (a dict from column name to a dict of properties), and
  optionally \<^verbatim>\<open>constraints\<close> and \<^verbatim>\<open>indexes\<close>. A dict is an association list with
  pairwise different keys, in insertion order. The values of a column's properties are
  literals.
\<close>

datatype schema_value = SNone | SBool bool | SInt int | SStr string

text \<open>Python's truth value and \<^verbatim>\<open>str\<close> of such a literal.\<close>

fun sv_truthy :: "schema_value \<Rightarrow> bool" where
  "sv_truthy SNone = False"
| "sv_truthy (SBool b) = b"
| "sv_truthy (SInt i) = (i \<noteq> 0)"
| "sv_truthy (SStr s) = (s \<noteq> [])"

fun sv_str :: "schema_value \<Rightarrow> string" where
  "sv_str SNone = ''None''"
| "sv_str (SBool b) = (if b then ''True'' else ''False'')"
| "sv_str (SInt i) = str_int i"
| "sv_str (SStr s) = s"

text \<open>\<^verbatim>\<open>d.get(k, default)\<close>, \<^verbatim>\<open>d[k] = v\<close> (a new key goes to the end) and
  \<^verbatim>\<open>del d[k]\<close>.\<close>

definition dict_get :: "('k \<times> 'v) list \<Rightarrow> 'k \<Rightarrow> 'v \<Rightarrow> 'v" where
  "dict_get d k dflt = (case map_of d k of Some v \<Rightarrow> v | None \<Rightarrow> dflt)"

definition dict_set :: "('k \<times> 'v) list \<Rightarrow> 'k \<Rightarrow> 'v \<Rightarrow> ('k \<times> 'v) list" where
  "dict_set d k v =
     (if k \<in> fst ` set d then map (\<lambda>(k', v'). if k' = k then (k', v) else (k', v')) d
      else d @ [(k, v)])"

definition dict_del :: "('k \<times> 'v) list \<Rightarrow> 'k \<Rightarrow> ('k \<times> 'v) list" where
  "dict_del d k = filter (\<lambda>kv. fst kv \<noteq> k) d"

type_synonym col_def = "(string \<times> schema_value) list"

record index_def =
  index_name :: string
  index_columns :: "string list"

record schema =
  table_name :: string
  columns :: "(string \<times> col_def) list"
  constraints :: "string list option"
  indexes :: "index_def list option"

text \<open>
  \<^verbatim>\<open>Ntas2020Transformer.get_schema\<close>. \<open>model_dump\<close> is pydantic's dump of the configured
  data schema into a fresh dict; it is a parameter. The two assignments add (or
  overwrite) the definitions of the metadata columns.
\<close>

definition get_schema :: "(data_schema \<Rightarrow> schema) \<Rightarrow> transformer \<Rightarrow> schema" where
  "get_schema model_dump self =
     (let schema = model_dump (data_schema (config self));
          schema = schema\<lparr>columns :=
            dict_set (columns schema) ''dataset_id''
              [(''type'', SStr ''VARCHAR(20)''), (''nullable'', SBool False)]\<rparr>;
          schema = schema\<lparr>columns :=
            dict_set (columns schema) ''ingestion_timestamp''
              [(''type'', SStr ''TIMESTAMP''), (''default'', SStr ''CURRENT_TIMESTAMP''),
               (''nullable'', SBool False)]\<rparr>
      in schema)"

section \<open>Storage (src/ingestion/storage.py)\<close>

subsection \<open>DDL from a schema\<close>

definition newline :: string where
  "newline = [char_of (10::nat)]"

definition spaces :: "nat \<Rightarrow> string" where
  "spaces n = replicate n CHR '' ''"

text \<open>The single quote of Python's messages.\<close>

definition quote :: string where
  "quote = [char_of (39::nat)]"

text \<open>The body of the loop over \<^verbatim>\<open>schema['columns'].items()\<close>: the fragment of one
  column. \<^verbatim>\<open>col_def['type']\<close> raises \<^verbatim>\<open>KeyError\<close> when the key is absent.\<close>

definition column_fragment :: "string \<Rightarrow> col_def \<Rightarrow> exn + string" where
  "column_fragment col_name col_def =
     (case map_of col_def ''type'' of
        None \<Rightarrow> Inl (KeyError ''type'')
      | Some col_type \<Rightarrow>
          (let nullable = dict_get col_def ''nullable'' (SBool True);
               default = dict_get col_def ''default'' SNone;
               primary_key = dict_get col_def ''primary_key'' (SBool False);
               col_str = col_name @ '' '' @ sv_str col_type;
               col_str = (if sv_truthy primary_key then col_str @ '' PRIMARY KEY''
                          else if \<not> sv_truthy nullable then col_str @ '' NOT NULL''
                          else col_str);
               col_str = (if sv_truthy default then col_str @ '' DEFAULT '' @ sv_str default
                          else col_str)
           in Inr col_str))"

fun column_fragments :: "(string \<times> col_def) list \<Rightarrow> exn + string list" where
  "column_fragments [] = Inr []"
| "column_fragments ((col_name, col_def) # rest) =
     (case column_fragment col_name col_def of
        Inl e \<Rightarrow> Inl e
      | Inr col_str \<Rightarrow>
          (case column_fragments rest of
             Inl e \<Rightarrow> Inl e
           | Inr strs \<Rightarrow> Inr (col_str # strs)))"

definition create_index_sql :: "string \<Rightarrow> index_def \<Rightarrow> string" where
  "create_index_sql tbl index_def =
     newline @ spaces 16 @ ''CREATE INDEX IF NOT EXISTS '' @ index_name index_def @ '' '' @
     newline @ spaces 16 @ ''ON '' @ tbl @ '' ('' @ join '', '' (index_columns index_def) @
     '');'' @ newline @ spaces 16"

text \<open>\<^verbatim>\<open>create_table_from_schema\<close>: the statements it sends to the database, in order
  (each on a connection of its own, committed at once), or the exception raised while the
  column list is built.\<close>

definition create_table_from_schema :: "schema \<Rightarrow> exn + string list" where
  "create_table_from_schema schema =
     (case column_fragments (columns schema) of
        Inl e \<Rightarrow> Inl e
      | Inr strs \<Rightarrow>
          (let cols = strs @ (case constraints schema of None \<Rightarrow> [] | Some cs \<Rightarrow> cs);
               create_table_sql =
                 newline @ spaces 8 @ ''CREATE TABLE IF NOT EXISTS '' @ table_name schema @
                 '' ('' @ newline @ spaces 12 @ join '', '' cols @ newline @ spaces 8 @
                 '');'' @ newline @ spaces 8
           in Inr (create_table_sql #
                   (case indexes schema of
                      None \<Rightarrow> []
                    | Some ixs \<Rightarrow> map (create_index_sql (table_name schema)) ixs))))"

subsection \<open>The database and its connections\<close>

text \<open>
  The database holds the dataset tables, by name, and the table \<^verbatim>\<open>dataset_metadata\<close>
  (absent until \<^verbatim>\<open>create_metadata_table\<close> has run), keyed by \<^verbatim>\<open>dataset_id\<close>.
\<close>

type_synonym ('n, 'j) row = "(string \<times> ('n, 'j) pyval) list"

record meta_row =
  md_dataset_name :: "string option"
  md_table_name :: string
  md_last_ingestion :: nat
  md_record_count :: nat
  md_status :: string

record ('n, 'j) database =
  tables :: "string \<Rightarrow> ('n, 'j) row list option"
  dataset_metadata :: "(string \<Rightarrow> meta_row option) option"

text \<open>
  A connection of SQLAlchemy as the code uses it (\<^verbatim>\<open>engine.connect()\<close>, then
  \<^verbatim>\<open>conn.execute\<close>, then \<^verbatim>\<open>conn.commit()\<close>): the statements run in a transaction that
  starts with the first of them; \<^verbatim>\<open>commit\<close> makes their effect the state of the
  database; leaving the \<^verbatim>\<open>with\<close> block closes the connection, and what was executed
  but not committed is rolled back. \<open>conn_executed\<close> and \<open>conn_commits\<close> record what
  the connection was asked to do. How the database executes a statement with its
  parameters is the parameter \<open>run\<close> of \<open>execute\<close>; \<open>Inl\<close> is the error it raises.
\<close>

record ('d, 'p) connection =
  conn_committed :: 'd
  conn_pending :: 'd
  conn_executed :: "(string \<times> 'p) list"
  conn_commits :: nat

definition connect :: "'d \<Rightarrow> ('d, 'p) connection" where
  "connect db = \<lparr>conn_committed = db, conn_pending = db, conn_executed = [], conn_commits = 0\<rparr>"

definition execute ::
  "('d \<Rightarrow> string \<Rightarrow> 'p \<Rightarrow> exn + 'd) \<Rightarrow> ('d, 'p) connection \<Rightarrow> string \<Rightarrow> 'p \<Rightarrow>
     exn + ('d, 'p) connection" where
  "execute run conn sql params =
     (case run (conn_pending conn) sql params of
        Inl e \<Rightarrow> Inl e
      | Inr d \<Rightarrow> Inr (conn\<lparr>conn_pending := d, conn_executed := conn_executed conn @ [(sql, params)]\<rparr>))"

definition commit :: "('d, 'p) connection \<Rightarrow> ('d, 'p) connection" where
  "commit conn = conn\<lparr>conn_committed := conn_pending conn, conn_commits := conn_commits conn + 1\<rparr>"

text \<open>The state of the database once the connection is closed.\<close>

definition close_connection :: "('d, 'p) connection \<Rightarrow> 'd" where
  "close_connection conn = conn_committed conn"

subsection \<open>Metadata, bulk store and upsert\<close>

text \<open>
  \<^verbatim>\<open>_update_metadata\<close>: one statement on a connection of its own, committed at once.
  The statement is fixed text: insert the row
  \<^verbatim>\<open>(dataset_id, table_name, CURRENT_TIMESTAMP, record_count, 'success')\<close>, and on a
  conflict on \<^verbatim>\<open>dataset_id\<close> set \<^verbatim>\<open>last_ingestion\<close>, \<^verbatim>\<open>record_count\<close> and \<^verbatim>\<open>status\<close> of
  the existing row. \<open>now\<close> is the database's clock.
\<close>

definition update_metadata ::
  "nat \<Rightarrow> string \<Rightarrow> string \<Rightarrow> nat \<Rightarrow> ('n, 'j) database \<Rightarrow> exn + ('n, 'j) database" where
  "update_metadata now ds_id tbl record_count db =
     (case dataset_metadata db of
        None \<Rightarrow> Inl (DatabaseError ''relation dataset_metadata does not exist'')
      | Some m \<Rightarrow>
          Inr (db\<lparr>dataset_metadata := Some (m(ds_id \<mapsto>
            (case m ds_id of
               None \<Rightarrow>
                 \<lparr>md_dataset_name = None, md_table_name = tbl, md_last_ingestion = now,
                  md_record_count = record_count, md_status = ''success''\<rparr>
             | Some old \<Rightarrow>
                 old\<lparr>md_last_ingestion := now, md_record_count := record_count,
                     md_status := ''success''\<rparr>)))\<rparr>))"

text \<open>
  \<^verbatim>\<open>df.to_sql(table_name, engine, if_exists=..., index=False, method='multi',
  chunksize=1000)\<close> of pandas, in one transaction: an existing table makes mode
  \<^verbatim>\<open>fail\<close> raise, is emptied by \<^verbatim>\<open>replace\<close> and extended by \<^verbatim>\<open>append\<close>; a missing
  table is created. \<open>rejects\<close> says which rows the database refuses, and why.
\<close>

definition to_sql ::
  "(('n, 'j) row \<Rightarrow> string option) \<Rightarrow> ('n, 'j) pyval frame \<Rightarrow> string \<Rightarrow> string \<Rightarrow>
     ('n, 'j) database \<Rightarrow> exn + ('n, 'j) database" where
  "to_sql rejects df tbl if_exists db =
     (if if_exists \<notin> {''fail'', ''replace'', ''append''}
      then Inl (ValueError (quote @ if_exists @ quote @ '' is not valid for if_exists''))
      else if tables db tbl \<noteq> None \<and> if_exists = ''fail''
      then Inl (ValueError (''Table '' @ quote @ tbl @ quote @ '' already exists.''))
      else
        (let kept = (case tables db tbl of
                       None \<Rightarrow> []
                     | Some old \<Rightarrow> if if_exists = ''replace'' then [] else old)
         in case List.map_filter rejects (to_records df) of
              [] \<Rightarrow> Inr (db\<lparr>tables := (tables db)(tbl \<mapsto> kept @ to_records df)\<rparr>)
            | msg # msgs \<Rightarrow> Inl (DatabaseError msg)))"

text \<open>\<^verbatim>\<open>store_data\<close>: the result, and the database afterwards. The \<^verbatim>\<open>except\<close> clause
  logs and raises the same exception again.\<close>

definition store_data ::
  "(('n, 'j) row \<Rightarrow> string option) \<Rightarrow> nat \<Rightarrow> ('n, 'j) pyval frame \<Rightarrow> string \<Rightarrow> string \<Rightarrow>
     string \<Rightarrow> ('n, 'j) database \<Rightarrow> (exn + nat) \<times> ('n, 'j) database" where
  "store_data rejects now df tbl ds_id if_exists db =
     (case to_sql rejects df tbl if_exists db of
        Inl e \<Rightarrow> (Inl e, db)
      | Inr db1 \<Rightarrow>
          (case update_metadata now ds_id tbl (nrows df) db1 of
             Inl e \<Rightarrow> (Inl e, db1)
           | Inr db2 \<Rightarrow> (Inr (nrows df), db2)))"

text \<open>The text of the statement \<^verbatim>\<open>upsert_data\<close> builds for one record.\<close>

definition upsert_sql :: "string \<Rightarrow> string list \<Rightarrow> string list \<Rightarrow> string" where
  "upsert_sql tbl cs unique_columns =
     (let insert_cols = join '', '' cs;
          insert_vals = join '', '' (map (\<lambda>col. '':'' @ col) cs);
          update_cols = filter (\<lambda>col. col \<notin> set unique_columns) cs;
          update_set = join '', '' (map (\<lambda>col. col @ '' = EXCLUDED.'' @ col) update_cols);
          conflict_cols = join '', '' unique_columns
      in newline @ spaces 20 @ ''INSERT INTO '' @ tbl @ '' ('' @ insert_cols @ '')'' @
         newline @ spaces 20 @ ''VALUES ('' @ insert_vals @ '')'' @
         newline @ spaces 20 @ ''ON CONFLICT ('' @ conflict_cols @ '')'' @
         newline @ spaces 20 @ ''DO UPDATE SET '' @ update_set @ '';'' @
         newline @ spaces 20)"

text \<open>The loop \<^verbatim>\<open>for record in records\<close> on the open connection: it stops at the first
  statement the database refuses, and returns that error with the connection as it
  stands.\<close>

fun upsert_rows ::
  "('d \<Rightarrow> string \<Rightarrow> ('n, 'j) row \<Rightarrow> exn + 'd) \<Rightarrow> string \<Rightarrow> string list \<Rightarrow>
     ('n, 'j) row list \<Rightarrow> ('d, ('n, 'j) row) connection \<Rightarrow>
     exn option \<times> ('d, ('n, 'j) row) connection" where
  "upsert_rows run tbl unique_columns [] conn = (None, conn)"
| "upsert_rows run tbl unique_columns (record # records) conn =
     (case execute run conn (upsert_sql tbl (map fst record) unique_columns) record of
        Inl e \<Rightarrow> (Some e, conn)
      | Inr conn' \<Rightarrow> upsert_rows run tbl unique_columns records conn')"

text \<open>\<^verbatim>\<open>upsert_data\<close>: the result, the database afterwards, and the connection of the
  \<^verbatim>\<open>with\<close> block as it was when the block was left.\<close>

record ('n, 'j) upsert_outcome =
  result :: "exn + nat"
  db_after :: "('n, 'j) database"
  data_conn :: "(('n, 'j) database, ('n, 'j) row) connection"

definition upsert_data ::
  "(('n, 'j) database \<Rightarrow> string \<Rightarrow> ('n, 'j) row \<Rightarrow> exn + ('n, 'j) database) \<Rightarrow> nat \<Rightarrow>
     ('n, 'j) pyval frame \<Rightarrow> string \<Rightarrow> string \<Rightarrow> string list \<Rightarrow> ('n, 'j) database \<Rightarrow>
     ('n, 'j) upsert_outcome" where
  "upsert_data run now df tbl ds_id unique_columns db =
     (let records = to_records df
      in case upsert_rows run tbl unique_columns records (connect db) of
           (Some e, conn) \<Rightarrow>
             \<lparr>result = Inl e, db_after = close_connection conn, data_conn = conn\<rparr>
         | (None, conn) \<Rightarrow>
             (let conn' = commit conn; db1 = close_connection conn'
              in case update_metadata now ds_id tbl (nrows df) db1 of
                   Inl e \<Rightarrow> \<lparr>result = Inl e, db_after = db1, data_conn = conn'\<rparr>
                 | Inr db2 \<Rightarrow> \<lparr>result = Inr (nrows df), db_after = db2, data_conn = conn'\<rparr>))"

text \<open>The statements \<^verbatim>\<open>upsert_data\<close> has to send for a frame: one per record.\<close>

definition upsert_statements ::
  "string \<Rightarrow> string list \<Rightarrow> ('n, 'j) pyval frame \<Rightarrow> (string \<times> ('n, 'j) row) list" where
  "upsert_statements tbl unique_columns df =
     map (\<lambda>record. (upsert_sql tbl (map fst record) unique_columns, record)) (to_records df)"

text \<open>Two readings of the database: \<^verbatim>\<open>SELECT COUNT(*)\<close> of a dataset table, and the
  metadata row of a dataset.\<close>

definition row_count :: "('n, 'j) database \<Rightarrow> string \<Rightarrow> nat option" where
  "row_count db tbl = map_option length (tables db tbl)"

definition metadata_record :: "('n, 'j) database \<Rightarrow> string \<Rightarrow> meta_row option" where
  "metadata_record db ds_id = (case dataset_metadata db of None \<Rightarrow> None | Some m \<Rightarrow> m ds_id)"

subsection \<open>A concrete database\<close>

text \<open>An instance for evaluation. The table \<^verbatim>\<open>ntas_2020\<close> is keyed by \<^verbatim>\<open>nta2020\<close>,
  which must not be null: \<open>demo_run\<close> executes an upsert statement on it, and
  \<open>demo_rejects\<close> is the same constraint for the bulk insert.\<close>

definition demo_rejects :: "(int, string) row \<Rightarrow> string option" where
  "demo_rejects record =
     (if is_null (dict_get record ''nta2020'' PyNone)
      then Some ''null value in column nta2020 violates not-null constraint'' else None)"

definition demo_run ::
  "(int, string) database \<Rightarrow> string \<Rightarrow> (int, string) row \<Rightarrow> exn + (int, string) database" where
  "demo_run db sql record =
     (case demo_rejects record of
        Some msg \<Rightarrow> Inl (DatabaseError msg)
      | None \<Rightarrow>
          (case tables db ''ntas_2020'' of
             None \<Rightarrow> Inl (DatabaseError ''relation ntas_2020 does not exist'')
           | Some rows \<Rightarrow>
               Inr (db\<lparr>tables := (tables db)(''ntas_2020'' \<mapsto>
                      filter (\<lambda>r. map_of r ''nta2020'' \<noteq> map_of record ''nta2020'') rows @
                      [record])\<rparr>)))"

definition demo_db :: "(int, string) database" where
  "demo_db =
     \<lparr>tables = [''ntas_2020'' \<mapsto>
         [[(''nta2020'', PStr ''MN0101''), (''nta_name'', PStr ''Marble Hill'')],
          [(''nta2020'', PStr ''MN0102''), (''nta_name'', PStr ''Inwood'')]]],
      dataset_metadata = Some Map.empty\<rparr>"

definition demo_batch :: "(int, string) pyval frame" where
  "demo_batch =
     \<lparr>nrows = 1,
      cols = [(''nta2020'', [PStr ''BK0101'']), (''nta_name'', [PStr ''Greenpoint''])]\<rparr>"

definition demo_batch_bad :: "(int, string) pyval frame" where
  "demo_batch_bad =
     \<lparr>nrows = 2,
      cols = [(''nta2020'', [PStr ''BK0101'', PyNone]),
              (''nta_name'', [PStr ''Greenpoint'', PStr ''Williamsburg''])]\<rparr>"

section \<open>The food-gaps endpoint (src/api/routes.py)\<close>

text \<open>
  What a call can raise, as far as the handler tells it apart: an instance of
  \<^verbatim>\<open>Exception\<close>, with its \<^verbatim>\<open>str\<close>, or another \<^verbatim>\<open>BaseException\<close> (an interrupt), which
  \<^verbatim>\<open>except Exception\<close> does not catch.
\<close>

datatype failure = Exc string | NonExc string

text \<open>
  The \<^verbatim>\<open>DataStorage\<close> object of the request: its engine, once created, with the number
  of connections checked out of it and the number of \<^verbatim>\<open>dispose()\<close> calls it has received.
\<close>

record engine_state =
  open_connections :: nat
  dispose_calls :: nat

record storage =
  engine :: "engine_state option"

text \<open>
  The outside world of one request: whether \<^verbatim>\<open>create_engine\<close> raises, whether
  \<^verbatim>\<open>engine.connect()\<close> raises, and what \<^verbatim>\<open>conn.execute(query).scalar()\<close> raises or
  returns.
\<close>

record 'r world =
  create_engine_raises :: "failure option"
  connect_raises :: "failure option"
  scalar_result :: "failure + 'r"

text \<open>\<^verbatim>\<open>DataStorage.get_engine\<close>: the log, the exception raised if any, the object
  afterwards.\<close>

definition get_engine ::
  "'r world \<Rightarrow> storage \<Rightarrow> log_entry list \<times> (failure + engine_state) \<times> storage" where
  "get_engine W self =
     (case engine self of
        Some e \<Rightarrow> ([], Inr e, self)
      | None \<Rightarrow>
          (case create_engine_raises W of
             Some x \<Rightarrow> ([LogInfo ''Creating database connection''], Inl x, self)
           | None \<Rightarrow>
               (let e = \<lparr>open_connections = 0, dispose_calls = 0\<rparr>
                in ([LogInfo ''Creating database connection''], Inr e,
                    self\<lparr>engine := Some e\<rparr>))))"

text \<open>\<^verbatim>\<open>DataStorage.close\<close>.\<close>

definition close :: "storage \<Rightarrow> log_entry list \<times> storage" where
  "close self =
     (case engine self of
        None \<Rightarrow> ([], self)
      | Some e \<Rightarrow>
          ([LogInfo ''Database connection closed''],
           self\<lparr>engine := Some (e\<lparr>dispose_calls := dispose_calls e + 1\<rparr>)\<rparr>))"

text \<open>The block \<^verbatim>\<open>with engine.connect() as conn: result = conn.execute(query).scalar()\<close>:
  the connection is checked out, the query runs, and the connection is given back when
  the block is left, by return or by exception. The result is what the block returns
  or raises, and the engine afterwards.\<close>

definition run_query :: "'r world \<Rightarrow> engine_state \<Rightarrow> (failure + 'r) \<times> engine_state" where
  "run_query W e =
     (case connect_raises W of
        Some x \<Rightarrow> (Inl x, e)
      | None \<Rightarrow>
          (let e1 = e\<lparr>open_connections := open_connections e + 1\<rparr>;
               result = scalar_result W;
               e2 = e1\<lparr>open_connections := open_connections e1 - 1\<rparr>
           in (result, e2)))"

text \<open>The body of the \<^verbatim>\<open>try\<close> block. The engine is an object the storage refers to,
  so what happens to it is seen through the storage.\<close>

definition try_block :: "'r world \<Rightarrow> storage \<Rightarrow> log_entry list \<times> (failure + 'r) \<times> storage" where
  "try_block W self =
     (case get_engine W self of
        (lg, Inl x, self1) \<Rightarrow> (lg, Inl x, self1)
      | (lg, Inr e, self1) \<Rightarrow>
          (case run_query W e of (res, e') \<Rightarrow> (lg, res, self1\<lparr>engine := Some e'\<rparr>)))"

datatype 'r response = Returned 'r | HTTPError nat string | Uncaught failure

text \<open>\<^verbatim>\<open>get_food_gaps\<close>: what the handler returns or raises, the storage object when the
  handler is left, and the log. \<^verbatim>\<open>HTTPError 500 detail\<close> is
  \<^verbatim>\<open>HTTPException(status_code=500, detail=str(e))\<close>.\<close>

definition get_food_gaps :: "'r world \<Rightarrow> 'r response \<times> storage \<times> log_entry list" where
  "get_food_gaps W =
     (case try_block W \<lparr>engine = None\<rparr> of
        (log1, res, storage1) \<Rightarrow>
          (let (resp, log2) =
                 (case res of
                    Inr r \<Rightarrow> (Returned r, [])
                  | Inl (Exc m) \<Rightarrow>
                      (HTTPError 500 m, [LogError (''Error fetching food gaps: '' @ m)])
                  | Inl (NonExc m) \<Rightarrow> (Uncaught (NonExc m), []));
               (log3, storage2) = close storage1
           in (resp, storage2, log1 @ log2 @ log3)))"

text \<open>What the world makes the \<^verbatim>\<open>try\<close> block raise, if anything: the first of the three
  calls that fails.\<close>

definition try_raises :: "'r world \<Rightarrow> failure option" where
  "try_raises W =
     (case create_engine_raises W of
        Some x \<Rightarrow> Some x
      | None \<Rightarrow>
          (case connect_raises W of
             Some x \<Rightarrow> Some x
           | None \<Rightarrow> (case scalar_result W of Inl x \<Rightarrow> Some x | Inr r \<Rightarrow> None)))"

definition demo_world :: "string world" where
  "demo_world =
     \<lparr>create_engine_raises = None, connect_raises = None,
      scalar_result = Inl (Exc ''relation food_supply_gaps does not exist'')\<rparr>"

section \<open>Properties\<close>

lemma sub_spaces_no_space:
  "\<forall>c \<in> set s. \<not> is_space T c \<Longrightarrow> sub_spaces T s = s"
  by (induction s) auto

lemma set_sub_spaces:
  "set (sub_spaces T s) \<subseteq> insert (underscore T) {c \<in> set s. \<not> is_space T c}"
proof (induction T s rule: sub_spaces.induct)
  case (1 T)
  show ?case by simp
next
  case (2 T c cs)
  show ?case
  proof (cases "is_space T c")
    case True
    have "set (dropWhile (is_space T) cs) \<subseteq> set cs"
      by (rule set_dropWhileD [THEN subsetI])
    with True 2(1) show ?thesis by auto
  next
    case False
    with 2(2) show ?thesis by auto
  qed
qed

lemma set_standardize_name:
  "set (standardize_name T s) \<subseteq>
     insert (underscore T) {c \<in> set (str_lower T s). is_word T c \<and> \<not> is_space T c}"
  using set_sub_spaces [of T "strip_punctuation T (str_lower T s)"]
  by (auto simp: standardize_name_def strip_punctuation_def)

lemma standardize_name_fixed:
  assumes us: "is_word T (underscore T)" "\<not> is_space T (underscore T)"
    and low: "str_lower T r = r"
    and r: "\<forall>c \<in> set r. c = underscore T \<or> (is_word T c \<and> \<not> is_space T c)"
  shows "standardize_name T r = r"
proof -
  from r us have keep: "\<forall>c \<in> set r. is_word T c \<or> is_space T c" by auto
  from r us have nosp: "\<forall>c \<in> set r. \<not> is_space T c" by auto
  from keep have "strip_punctuation T r = r"
    by (simp add: strip_punctuation_def)
  with low nosp show ?thesis
    by (simp add: standardize_name_def sub_spaces_no_space)
qed

text \<open>
  Claim C9. \<^verbatim>\<open>standardize_column_names\<close> is idempotent: a second application leaves
  every label (and every cell) as the first application made it. The three hypotheses are
  the facts about the runtime's text operations that the argument uses: the underscore is
  a word character and not white space, and lower-casing does not change a string made
  only of underscores and of characters that lower-casing has produced.
\<close>

theorem standardize_column_names_idempotent:
  assumes "is_word T (underscore T)" and "\<not> is_space T (underscore T)"
    and "\<forall>s r. set r \<subseteq> insert (underscore T) (set (str_lower T s)) \<longrightarrow> str_lower T r = r"
  shows "standardize_column_names T (standardize_column_names T df) =
         standardize_column_names T df"
proof -
  have one: "standardize_name T (standardize_name T s) = standardize_name T s" for s
  proof (rule standardize_name_fixed)
    show "is_word T (underscore T)" "\<not> is_space T (underscore T)" by fact+
    have "set (standardize_name T s) \<subseteq> insert (underscore T) (set (str_lower T s))"
      using set_standardize_name [of T s] by auto
    with assms(3) show "str_lower T (standardize_name T s) = standardize_name T s"
      by blast
    show "\<forall>c \<in> set (standardize_name T s).
            c = underscore T \<or> (is_word T c \<and> \<not> is_space T c)"
      using set_standardize_name [of T s] by auto
  qed
  show ?thesis
    by (induction df) (auto simp: standardize_column_names_def one)
qed

lemma ascii_lower_idem: "ascii_lower (ascii_lower c) = ascii_lower c"
  by (auto simp: ascii_lower_def Let_def)

lemma ascii_lower_underscore: "ascii_lower CHR ''_'' = CHR ''_''"
  by (simp add: ascii_lower_def)

lemma ascii_lower_stable:
  "\<forall>s r. set r \<subseteq> insert (underscore ascii_text) (set (str_lower ascii_text s)) \<longrightarrow>
      str_lower ascii_text r = r"
proof (intro allI impI)
  fix s r :: string
  assume a: "set r \<subseteq> insert (underscore ascii_text) (set (str_lower ascii_text s))"
  have "ascii_lower c = c" if "c \<in> set r" for c
    using that a ascii_lower_idem ascii_lower_underscore by (auto simp: ascii_text_def)
  then show "str_lower ascii_text r = r"
    by (simp add: ascii_text_def map_idI)
qed

theorem standardize_column_names_idempotent_witness:
  "standardize_column_names ascii_text [(''Boro Name (2020)!'', [1::nat])] =
     [(''boro_name_2020'', [1])] \<and>
   standardize_column_names ascii_text
     (standardize_column_names ascii_text [(''Boro Name (2020)!'', [1::nat])]) =
   standardize_column_names ascii_text [(''Boro Name (2020)!'', [1::nat])]"
proof -
  have w: "is_word ascii_text (underscore ascii_text)"
    by (simp add: ascii_text_def ascii_word_def)
  have s: "\<not> is_space ascii_text (underscore ascii_text)"
    by (simp add: ascii_text_def ascii_space_def)
  have v: "standardize_column_names ascii_text [(''Boro Name (2020)!'', [1::nat])] =
     [(''boro_name_2020'', [1])]"
    by code_simp
  from v standardize_column_names_idempotent [OF w s ascii_lower_stable,
      of "[(''Boro Name (2020)!'', [1::nat])]"]
  show ?thesis by simp
qed

subsection \<open>Frames and the stages of transform\<close>

lemma transform_eq:
  "transform lib self now df =
     (LogInfo (''Transforming '' @ str_nat (nrows df) @ '' NTA records'') # geometry_warnings lib df,
      case validate_required_columns self (cleaned lib self now df) (required_cols self) of
        Inl e \<Rightarrow> Inl e
      | Inr u \<Rightarrow> Inr (cleaned lib self now df))"
proof (cases "get_column ''geom'' (staged lib df)")
  case None
  then have g: "get_column ''geom'' (fold (convert_numeric lib) numeric_cols
      (select_columns (filter (\<lambda>c. \<not> startswith c '':'') (labels (rename column_mapping df)))
         (rename column_mapping df))) = None"
    by (simp add: staged_def Let_def)
  show ?thesis
    unfolding transform_def cleaned_def geometry_warnings_def staged_def Let_def g
    by (simp split: sum.splits)
next
  case (Some xs)
  then have g: "get_column ''geom'' (fold (convert_numeric lib) numeric_cols
      (select_columns (filter (\<lambda>c. \<not> startswith c '':'') (labels (rename column_mapping df)))
         (rename column_mapping df))) = Some xs"
    by (simp add: staged_def Let_def)
  show ?thesis
    unfolding transform_def cleaned_def geometry_warnings_def staged_def Let_def g apply_logged_def
    by (simp split: sum.splits)
qed

lemma labels_rename: "labels (rename m df) = map (rename_label m) (labels df)"
  by (simp add: labels_def rename_def case_prod_unfold comp_def)

lemma nrows_rename: "nrows (rename m df) = nrows df"
  by (simp add: rename_def)

lemma nrows_select: "nrows (select_columns ls df) = nrows df"
  by (simp add: select_columns_def)

lemma nrows_set_column: "nrows (set_column l xs df) = nrows df"
  by (simp add: set_column_def)

lemma filter_unique:
  "distinct (map fst xs) \<Longrightarrow> y \<in> set xs \<Longrightarrow> filter (\<lambda>c. fst c = fst y) xs = [y]"
proof (induction xs)
  case Nil
  then show ?case by simp
next
  case (Cons x xs)
  show ?case
  proof (cases "x = y")
    case True
    with Cons.prems have "filter (\<lambda>c. fst c = fst y) xs = []"
      by (auto simp: filter_empty_conv image_iff)
    with True show ?thesis by simp
  next
    case False
    with Cons.prems have "fst x \<noteq> fst y" by (auto simp: image_iff)
    with Cons False show ?thesis by auto
  qed
qed

lemma concat_filter_unique:
  "distinct (map fst xs) \<Longrightarrow> set ys \<subseteq> set xs \<Longrightarrow>
     concat (map (\<lambda>l. filter (\<lambda>c. fst c = l) xs) (map fst ys)) = ys"
  by (induction ys) (auto simp: filter_unique)

lemma select_filter:
  assumes "distinct (labels df)"
  shows "select_columns (filter p (labels df)) df = df\<lparr>cols := filter (\<lambda>c. p (fst c)) (cols df)\<rparr>"
proof -
  have "filter p (map fst (cols df)) = map fst (filter (\<lambda>c. p (fst c)) (cols df))"
    by (simp add: filter_map comp_def)
  moreover have "concat (map (\<lambda>l. filter (\<lambda>c. fst c = l) (cols df))
                   (map fst (filter (\<lambda>c. p (fst c)) (cols df)))) = filter (\<lambda>c. p (fst c)) (cols df)"
    using assms by (intro concat_filter_unique) (auto simp: labels_def)
  ultimately show ?thesis by (simp add: select_columns_def labels_def)
qed

lemma map_of_replace:
  "map_of (map (\<lambda>(l', ys). if l' = l then (l', xs) else (l', ys)) cs) k =
     (if k = l \<and> l \<in> fst ` set cs then Some xs else map_of cs k)"
proof (induction cs)
  case Nil
  show ?case by simp
next
  case (Cons c cs)
  obtain a b where c: "c = (a, b)" by (cases c)
  show ?case
  proof (cases "k = l")
    case True
    with Cons c show ?thesis by (cases "a = l") simp_all
  next
    case False
    with Cons c show ?thesis by (cases "a = l") simp_all
  qed
qed

lemma get_column_Some_label: "get_column l df = Some xs \<Longrightarrow> l \<in> set (labels df)"
  unfolding get_column_def labels_def by (metis map_of_SomeD set_map image_eqI fst_conv)

lemma get_column_None_label: "get_column l df = None \<longleftrightarrow> l \<notin> set (labels df)"
  unfolding get_column_def labels_def by (simp add: map_of_eq_None_iff)

lemma get_column_set_column:
  "get_column l' (set_column l xs df) = (if l' = l then Some xs else get_column l' df)"
proof (cases "l \<in> set (labels df)")
  case True
  then have "l \<in> fst ` set (cols df)" by (simp add: labels_def)
  with True show ?thesis
    by (simp add: get_column_def set_column_def map_of_replace)
next
  case False
  then have "map_of (cols df) l = None"
    by (simp add: labels_def map_of_eq_None_iff)
  with False show ?thesis
    by (simp add: get_column_def set_column_def map_add_def split: option.splits)
qed

lemma labels_set_column:
  "labels (set_column l xs df) = (if l \<in> set (labels df) then labels df else labels df @ [l])"
  by (auto simp: set_column_def labels_def case_prod_unfold comp_def intro!: map_idI)

lemma labels_convert_numeric: "labels (convert_numeric lib c df) = labels df"
proof (cases "get_column c df")
  case None
  then show ?thesis by (simp add: convert_numeric_def)
next
  case (Some xs)
  then have "c \<in> set (labels df)" by (rule get_column_Some_label)
  with Some show ?thesis by (simp add: convert_numeric_def labels_set_column)
qed

lemma nrows_convert_numeric: "nrows (convert_numeric lib c df) = nrows df"
  by (simp add: convert_numeric_def nrows_set_column split: option.splits)

lemma get_column_convert_numeric:
  "get_column l (convert_numeric lib c df) =
     (if l = c then map_option (map (to_numeric lib)) (get_column l df) else get_column l df)"
  by (auto simp: convert_numeric_def get_column_set_column split: option.splits)

lemma labels_fold_numeric: "labels (fold (convert_numeric lib) cs df) = labels df"
  by (induction cs arbitrary: df) (simp_all add: labels_convert_numeric)

lemma nrows_fold_numeric: "nrows (fold (convert_numeric lib) cs df) = nrows df"
  by (induction cs arbitrary: df) (simp_all add: nrows_convert_numeric)

lemma get_column_fold_numeric:
  "distinct cs \<Longrightarrow> get_column l (fold (convert_numeric lib) cs df) =
     (if l \<in> set cs then map_option (map (to_numeric lib)) (get_column l df) else get_column l df)"
  by (induction cs arbitrary: df) (auto simp: get_column_convert_numeric)

lemma map_of_filter_fst:
  "map_of (filter (\<lambda>c. p (fst c)) cs) l = (if p l then map_of cs l else None)"
  by (induction cs) auto

lemma wf_raw_distinct_renamed: "wf_raw df \<Longrightarrow> distinct (labels (rename column_mapping df))"
  by (simp add: wf_raw_def labels_rename)

lemma wf_raw_length: "wf_raw df \<Longrightarrow> (l, xs) \<in> set (cols df) \<Longrightarrow> length xs = nrows df"
  by (auto simp: wf_raw_def list_all_iff)

lemma renamed_column:
  assumes "wf_raw df" "(l0, xs) \<in> set (cols df)"
  shows "get_column (rename_label column_mapping l0) (rename column_mapping df) = Some xs"
proof -
  have "distinct (map fst (cols (rename column_mapping df)))"
    using wf_raw_distinct_renamed [OF assms(1)] by (simp add: labels_def)
  moreover have "(rename_label column_mapping l0, xs) \<in> set (cols (rename column_mapping df))"
    using assms(2) by (force simp: rename_def)
  ultimately show ?thesis
    unfolding get_column_def by (rule map_of_is_SomeI)
qed

lemma renamed_column_inv:
  assumes "get_column l (rename column_mapping df) = Some xs"
  shows "\<exists>l0. (l0, xs) \<in> set (cols df) \<and> rename_label column_mapping l0 = l"
proof -
  from assms have "(l, xs) \<in> set (cols (rename column_mapping df))"
    unfolding get_column_def by (rule map_of_SomeD)
  then show ?thesis by (auto simp: rename_def)
qed

lemma distinct_numeric_cols: "distinct numeric_cols"
  by (simp add: numeric_cols_def)

lemma staged_eq:
  assumes "wf_raw df"
  shows "staged lib df =
     fold (convert_numeric lib) numeric_cols
       ((rename column_mapping df)\<lparr>cols :=
          filter (\<lambda>c. \<not> startswith (fst c) '':'') (cols (rename column_mapping df))\<rparr>)"
  unfolding staged_def Let_def
  by (simp add: select_filter [OF wf_raw_distinct_renamed [OF assms]])

lemma nrows_staged: "nrows (staged lib df) = nrows df"
  by (simp add: staged_def Let_def nrows_fold_numeric nrows_select nrows_rename)

lemma get_column_staged:
  assumes "wf_raw df"
  shows "get_column l (staged lib df) =
     (if startswith l '':'' then None
      else if l \<in> set numeric_cols
        then map_option (map (to_numeric lib)) (get_column l (rename column_mapping df))
        else get_column l (rename column_mapping df))"
  unfolding staged_eq [OF assms]
  by (simp add: get_column_fold_numeric [OF distinct_numeric_cols])
     (simp add: get_column_def map_of_filter_fst [where p = "\<lambda>x. \<not> startswith x '':''"])

lemma labels_staged:
  assumes "wf_raw df"
  shows "labels (staged lib df) =
     filter (\<lambda>c. \<not> startswith c '':'') (map (rename_label column_mapping) (labels df))"
  unfolding staged_eq [OF assms]
  by (simp add: labels_fold_numeric) (simp add: labels_def rename_def filter_map comp_def case_prod_unfold)

lemma get_column_geometry_step:
  assumes "wf_raw df"
  shows "get_column l
       (case get_column ''geom'' (staged lib df) of
          None \<Rightarrow> staged lib df
        | Some xs \<Rightarrow>
            set_column ''geom'' (map (\<lambda>x. snd (convert_geometry lib x)) xs) (staged lib df)) =
     (if startswith l '':'' then None
      else map_option (map (clean_cell lib l)) (get_column l (rename column_mapping df)))"
proof -
  have g: "''geom'' \<notin> set numeric_cols" "\<not> startswith ''geom'' '':''"
    by (simp_all add: numeric_cols_def startswith_def)
  have cg: "clean_cell lib ''geom'' = (\<lambda>x. snd (convert_geometry lib x))"
    by (rule ext) (simp add: clean_cell_def)
  have cn: "l \<in> set numeric_cols \<Longrightarrow> clean_cell lib l = to_numeric lib"
    by (rule ext) (auto simp: clean_cell_def numeric_cols_def)
  have co: "l \<notin> set numeric_cols \<Longrightarrow> l \<noteq> ''geom'' \<Longrightarrow> clean_cell lib l = (\<lambda>x. x)"
    by (rule ext) (simp add: clean_cell_def)
  show ?thesis
  proof (cases "get_column ''geom'' (staged lib df)")
    case None
    then have n: "get_column ''geom'' (rename column_mapping df) = None"
      using g by (simp add: get_column_staged [OF assms])
    show ?thesis
    proof (cases "l = ''geom''")
      case True
      with None n g show ?thesis by (simp add: get_column_staged [OF assms])
    next
      case False
      with None show ?thesis
        by (cases "l \<in> set numeric_cols")
           (simp_all add: get_column_staged [OF assms] cn co option.map_ident)
    qed
  next
    case (Some xs)
    then have n: "get_column ''geom'' (rename column_mapping df) = Some xs"
      using g by (simp add: get_column_staged [OF assms])
    show ?thesis
    proof (cases "l = ''geom''")
      case True
      with Some n g show ?thesis by (simp add: get_column_set_column cg)
    next
      case False
      with Some show ?thesis
        by (cases "l \<in> set numeric_cols")
           (simp_all add: get_column_set_column get_column_staged [OF assms] cn co option.map_ident)
    qed
  qed
qed

lemma get_column_cleaned:
  assumes "wf_raw df"
  shows "get_column l (cleaned lib self now df) =
     (if l = ''ingestion_timestamp'' then Some (replicate (nrows df) (Timestamp now))
      else if l = ''dataset_id'' then Some (replicate (nrows df) (PStr (dataset_id self)))
      else if startswith l '':'' then None
      else map_option (map (clean_cell lib l)) (get_column l (rename column_mapping df)))"
proof -
  have n: "nrows (case get_column ''geom'' (staged lib df) of
          None \<Rightarrow> staged lib df
        | Some xs \<Rightarrow>
            set_column ''geom'' (map (\<lambda>x. snd (convert_geometry lib x)) xs) (staged lib df)) = nrows df"
    by (simp add: nrows_staged nrows_set_column split: option.splits)
  show ?thesis
    unfolding cleaned_def add_metadata_def Let_def
    by (simp only: get_column_set_column nrows_set_column n get_column_geometry_step [OF assms])
qed

lemma nrows_cleaned: "nrows (cleaned lib self now df) = nrows df"
  by (simp add: cleaned_def add_metadata_def Let_def nrows_set_column nrows_staged
      split: option.splits)

lemma set_labels_set_column: "set (labels (set_column l xs df)) = insert l (set (labels df))"
  by (auto simp: labels_set_column)

lemma set_labels_cleaned:
  assumes "wf_raw df"
  shows "set (labels (cleaned lib self now df)) = set (present_columns df)"
proof -
  have "set (labels (case get_column ''geom'' (staged lib df) of
          None \<Rightarrow> staged lib df
        | Some xs \<Rightarrow>
            set_column ''geom'' (map (\<lambda>x. snd (convert_geometry lib x)) xs) (staged lib df))) =
        set (labels (staged lib df))"
    by (auto simp: set_labels_set_column dest: get_column_Some_label split: option.splits)
  then show ?thesis
    unfolding cleaned_def add_metadata_def Let_def
    by (auto simp: set_labels_set_column labels_staged [OF assms] present_columns_def)
qed

lemma validate_cleaned:
  assumes "wf_raw df"
  shows "validate_required_columns self (cleaned lib self now df) (required_cols self) =
     (if missing_columns self df \<noteq> {}
      then Inl (MissingColumns (dataset_name self) (missing_columns self df)) else Inr ())"
  by (simp add: validate_required_columns_def Let_def missing_columns_def
      set_labels_cleaned [OF assms])

lemma transform_ok:
  assumes "wf_raw df" "missing_columns self df = {}"
  shows "transform lib self now df =
     (LogInfo (''Transforming '' @ str_nat (nrows df) @ '' NTA records'') # geometry_warnings lib df,
      Inr (cleaned lib self now df))"
  by (simp add: transform_eq validate_cleaned [OF assms(1)] assms(2))

lemma transform_fail:
  assumes "wf_raw df" "missing_columns self df \<noteq> {}"
  shows "transform lib self now df =
     (LogInfo (''Transforming '' @ str_nat (nrows df) @ '' NTA records'') # geometry_warnings lib df,
      Inl (MissingColumns (dataset_name self) (missing_columns self df)))"
  by (simp add: transform_eq validate_cleaned [OF assms(1)] assms(2))

lemma cleaned_column_raw:
  assumes "wf_raw df" "(l0, xs) \<in> set (cols df)" "rename_label column_mapping l0 = l"
    and "\<not> startswith l '':''" "l \<noteq> ''dataset_id''" "l \<noteq> ''ingestion_timestamp''"
  shows "get_column l (cleaned lib self now df) = Some (map (clean_cell lib l) xs)"
  using renamed_column [OF assms(1,2)] assms(3-)
  by (simp add: get_column_cleaned [OF assms(1)])

lemma cleaned_cell_raw:
  assumes "wf_raw df" "(l0, xs) \<in> set (cols df)" "rename_label column_mapping l0 = l"
    and "\<not> startswith l '':''" "l \<noteq> ''dataset_id''" "l \<noteq> ''ingestion_timestamp''"
    and "i < nrows df"
  shows "cell (cleaned lib self now df) l i = Some (clean_cell lib l (xs ! i))"
  using cleaned_column_raw [OF assms(1-6)] wf_raw_length [OF assms(1,2)] assms(7)
  by (simp add: cell_def)

lemma cleaned_column_length:
  assumes "wf_raw df" "get_column l (cleaned lib self now df) = Some ys"
  shows "length ys = nrows df"
proof -
  have "length xs = nrows df" if "get_column l (rename column_mapping df) = Some xs" for xs
    using renamed_column_inv [OF that] wf_raw_length [OF assms(1)] by blast
  with assms(2) show ?thesis
    by (auto simp: get_column_cleaned [OF assms(1)] split: if_splits)
qed

lemma geometry_warnings_raw:
  assumes "wf_raw df" "(l0, gs) \<in> set (cols df)" "rename_label column_mapping l0 = ''geom''"
  shows "geometry_warnings lib df = concat (map (\<lambda>g. fst (convert_geometry lib g)) gs)"
proof -
  have "get_column ''geom'' (staged lib df) = Some gs"
    using renamed_column [OF assms(1,2)] assms(3)
    by (simp add: get_column_staged [OF assms(1)] startswith_def numeric_cols_def)
  then show ?thesis by (simp add: geometry_warnings_def)
qed

lemma convert_geometry_falsy: "\<not> truthy g \<Longrightarrow> convert_geometry lib g = ([], PyNone)"
  by (simp add: convert_geometry_def)

lemma convert_geometry_error:
  "truthy g \<Longrightarrow> geometry_error lib g = Some e \<Longrightarrow>
     convert_geometry lib g = ([LogWarning (''Failed to convert geometry: '' @ e)], PyNone)"
  by (auto simp: convert_geometry_def geometry_error_def split: sum.splits)

lemma convert_geometry_ok:
  "truthy g \<Longrightarrow> geometry_error lib g = None \<Longrightarrow>
     \<exists>wkt. convert_geometry lib g = ([], WKTElement wkt 4326)"
  by (auto simp: convert_geometry_def geometry_error_def split: sum.splits)

lemma clean_cell_passthrough:
  "l \<notin> set numeric_cols \<Longrightarrow> l \<noteq> ''geom'' \<Longrightarrow> clean_cell lib l v = v"
  by (simp add: clean_cell_def)

lemma numeric_label_plain:
  "c \<in> set numeric_cols \<Longrightarrow>
     \<not> startswith c '':'' \<and> c \<noteq> ''dataset_id'' \<and> c \<noteq> ''ingestion_timestamp'' \<and> c \<noteq> ''geom''"
  by (auto simp: numeric_cols_def startswith_def)

lemma geom_label_plain:
  "\<not> startswith ''geom'' '':'' \<and> ''geom'' \<noteq> ''dataset_id'' \<and> ''geom'' \<noteq> ''ingestion_timestamp''"
  by (simp add: startswith_def)

subsection \<open>The claims about transform\<close>

text \<open>
  Claim C1, as amended. For a rectangular raw frame whose labels stay distinct under the
  renaming, \<open>transform\<close> either raises the validation error (and then at least one
  required column is missing), or returns a frame in which every column marked
  \<open>required\<close> or \<open>primary_key\<close> is present, with a cell in every row. Whether those
  cells are null is not checked by the code and not stated here.
\<close>

theorem transform_required_columns_present:
  assumes "wf_raw df"
  shows "case snd (transform lib self now df) of
           Inl e \<Rightarrow> e = MissingColumns (dataset_name self) (missing_columns self df) \<and>
                    missing_columns self df \<noteq> {}
         | Inr out \<Rightarrow>
             \<forall>c \<in> set (required_cols self).
               c \<in> set (labels out) \<and> (\<forall>i < nrows out. cell out c i \<noteq> None)"
proof (cases "missing_columns self df = {}")
  case False
  then show ?thesis by (simp add: transform_fail [OF assms])
next
  case True
  let ?out = "cleaned lib self now df"
  have "c \<in> set (labels ?out) \<and> (\<forall>i < nrows ?out. cell ?out c i \<noteq> None)"
    if c: "c \<in> set (required_cols self)" for c
  proof -
    from c True have "c \<in> set (present_columns df)"
      by (auto simp: missing_columns_def)
    then have l: "c \<in> set (labels ?out)"
      by (simp add: set_labels_cleaned [OF assms])
    then obtain ys where ys: "get_column c ?out = Some ys"
      using get_column_None_label [of c ?out] by (cases "get_column c ?out") auto
    from cleaned_column_length [OF assms ys] have "length ys = nrows ?out"
      by (simp add: nrows_cleaned)
    with ys l show ?thesis by (simp add: cell_def)
  qed
  then show ?thesis by (simp add: transform_ok [OF assms True])
qed

theorem transform_required_columns_present_witness:
  "wf_raw demo_raw \<and>
   snd (transform demo_lib demo_self 7 demo_raw) = Inr demo_cleaned \<and>
   set (required_cols demo_self) \<subseteq> set (labels demo_cleaned)"
proof -
  have w: "wf_raw demo_raw" by code_simp
  have t: "snd (transform demo_lib demo_self 7 demo_raw) = Inr demo_cleaned" by code_simp
  from transform_required_columns_present [OF w, where lib = demo_lib and self = demo_self and now = 7] t
  have "\<forall>c \<in> set (required_cols demo_self). c \<in> set (labels demo_cleaned) \<and>
          (\<forall>i < nrows demo_cleaned. cell demo_cleaned c i \<noteq> None)"
    by simp
  with w t show ?thesis by blast
qed

text \<open>
  Claim C1 as stated fails: \<open>boro_code\<close> is required, the raw value \<open>abc\<close> in row 1 is not
  a number, and \<open>transform\<close> returns a frame whose \<open>boro_code\<close> is NaN in that row.
\<close>

theorem transform_required_null_counterexample:
  "wf_raw demo_raw \<and>
   ''boro_code'' \<in> set (required_cols demo_self) \<and>
   snd (transform demo_lib demo_self 7 demo_raw) = Inr demo_cleaned \<and>
   cell demo_cleaned ''boro_code'' 1 = Some NaN \<and>
   is_null (NaN :: (int, string) pyval)"
  by code_simp

text \<open>
  Claim C2. When at least one column marked \<open>required\<close> or \<open>primary_key\<close> is not among
  the columns present after the renaming and the appending of the metadata,
  \<open>transform\<close> raises the validation error carrying the dataset name and exactly the set
  of missing columns, and returns no frame.
\<close>

theorem transform_missing_columns:
  assumes "wf_raw df" and "missing_columns self df \<noteq> {}"
  shows "snd (transform lib self now df) =
           Inl (MissingColumns (dataset_name self) (missing_columns self df))"
  by (simp add: transform_fail [OF assms])

theorem transform_missing_columns_witness:
  "wf_raw demo_raw_short \<and>
   missing_columns demo_self demo_raw_short = {''nta2020'', ''boro_code''} \<and>
   snd (transform demo_lib demo_self 7 demo_raw_short) =
     Inl (MissingColumns ''NTA 2020'' {''nta2020'', ''boro_code''})"
proof -
  have w: "wf_raw demo_raw_short" by code_simp
  have m: "missing_columns demo_self demo_raw_short = {''nta2020'', ''boro_code''}"
    by code_simp
  then have n: "missing_columns demo_self demo_raw_short \<noteq> {}" by simp
  have d: "dataset_name demo_self = ''NTA 2020''" by (simp add: demo_self_def)
  from transform_missing_columns [OF w n, where lib = demo_lib and now = 7] m d w show ?thesis by simp
qed

text \<open>
  Claim C4, as amended. Let the raw frame hold a geometry column (the one renamed to
  \<open>geom\<close>) and let no required column be missing. Then \<open>transform\<close> returns a frame
  with as many rows as the input, whatever the payloads are, and in every row:
  \<^item> a payload that is missing or empty (false in Python) gives a null geometry, and
    nothing is logged for it;
  \<^item> a payload that is malformed (the conversion raises) gives a null geometry, and the
    warning with the exception's message is in the log;
  \<^item> any other payload gives a \<open>WKTElement\<close> with SRID 4326;
  \<^item> every other field of the row is what \<open>transform\<close> makes of its own raw cell.
  The log holds the opening line and then the warnings of the conversion, row by row.
\<close>

theorem transform_geometry_soft_fail:
  assumes "wf_raw df" and "(l0, gs) \<in> set (cols df)"
    and "rename_label column_mapping l0 = ''geom''"
    and "missing_columns self df = {}"
  shows "\<exists>out.
      transform lib self now df =
        (LogInfo (''Transforming '' @ str_nat (nrows df) @ '' NTA records'') #
           concat (map (\<lambda>g. fst (convert_geometry lib g)) gs), Inr out) \<and>
      nrows out = nrows df \<and>
      (\<forall>i < nrows df.
         (\<not> truthy (gs ! i) \<longrightarrow>
            cell out ''geom'' i = Some PyNone \<and> fst (convert_geometry lib (gs ! i)) = []) \<and>
         (\<forall>e. truthy (gs ! i) \<and> geometry_error lib (gs ! i) = Some e \<longrightarrow>
            cell out ''geom'' i = Some PyNone \<and>
            LogWarning (''Failed to convert geometry: '' @ e)
              \<in> set (fst (transform lib self now df))) \<and>
         (truthy (gs ! i) \<and> geometry_error lib (gs ! i) = None \<longrightarrow>
            (\<exists>wkt. cell out ''geom'' i = Some (WKTElement wkt 4326))) \<and>
         (\<forall>(l1, ys) \<in> set (cols df).
            rename_label column_mapping l1 \<noteq> ''geom'' \<longrightarrow>
            \<not> startswith (rename_label column_mapping l1) '':'' \<longrightarrow>
            rename_label column_mapping l1 \<notin> {''dataset_id'', ''ingestion_timestamp''} \<longrightarrow>
            cell out (rename_label column_mapping l1) i =
              Some (clean_cell lib (rename_label column_mapping l1) (ys ! i))))"
proof -
  let ?out = "cleaned lib self now df"
  let ?log = "LogInfo (''Transforming '' @ str_nat (nrows df) @ '' NTA records'') #
           concat (map (\<lambda>g. fst (convert_geometry lib g)) gs)"
  have t: "transform lib self now df = (?log, Inr ?out)"
    by (simp add: transform_ok [OF assms(1,4)] geometry_warnings_raw [OF assms(1-3)])
  have len: "length gs = nrows df" by (rule wf_raw_length [OF assms(1,2)])
  have row: "(\<not> truthy (gs ! i) \<longrightarrow>
            cell ?out ''geom'' i = Some PyNone \<and> fst (convert_geometry lib (gs ! i)) = []) \<and>
         (\<forall>e. truthy (gs ! i) \<and> geometry_error lib (gs ! i) = Some e \<longrightarrow>
            cell ?out ''geom'' i = Some PyNone \<and>
            LogWarning (''Failed to convert geometry: '' @ e) \<in> set ?log) \<and>
         (truthy (gs ! i) \<and> geometry_error lib (gs ! i) = None \<longrightarrow>
            (\<exists>wkt. cell ?out ''geom'' i = Some (WKTElement wkt 4326))) \<and>
         (\<forall>(l1, ys) \<in> set (cols df).
            rename_label column_mapping l1 \<noteq> ''geom'' \<longrightarrow>
            \<not> startswith (rename_label column_mapping l1) '':'' \<longrightarrow>
            rename_label column_mapping l1 \<notin> {''dataset_id'', ''ingestion_timestamp''} \<longrightarrow>
            cell ?out (rename_label column_mapping l1) i =
              Some (clean_cell lib (rename_label column_mapping l1) (ys ! i)))"
    if i: "i < nrows df" for i
  proof -
    have g: "cell ?out ''geom'' i = Some (snd (convert_geometry lib (gs ! i)))"
      using cleaned_cell_raw [OF assms(1-3) _ _ _ i, of lib self now] geom_label_plain
      by (simp add: clean_cell_def)
    have a: "cell ?out ''geom'' i = Some PyNone \<and> fst (convert_geometry lib (gs ! i)) = []"
      if "\<not> truthy (gs ! i)"
      using g convert_geometry_falsy [OF that, of lib] by simp
    have b: "cell ?out ''geom'' i = Some PyNone \<and>
            LogWarning (''Failed to convert geometry: '' @ e) \<in> set ?log"
      if "truthy (gs ! i)" "geometry_error lib (gs ! i) = Some e" for e
    proof -
      from convert_geometry_error [OF that]
      have c: "convert_geometry lib (gs ! i) =
                 ([LogWarning (''Failed to convert geometry: '' @ e)], PyNone)" .
      from i len have "gs ! i \<in> set gs" by simp
      with c have "LogWarning (''Failed to convert geometry: '' @ e)
                     \<in> set (concat (map (\<lambda>g. fst (convert_geometry lib g)) gs))"
        by force
      with g c show ?thesis by simp
    qed
    have c: "\<exists>wkt. cell ?out ''geom'' i = Some (WKTElement wkt 4326)"
      if "truthy (gs ! i)" "geometry_error lib (gs ! i) = None"
      using g convert_geometry_ok [OF that] by auto
    have d: "cell ?out (rename_label column_mapping l1) i =
              Some (clean_cell lib (rename_label column_mapping l1) (ys ! i))"
      if "(l1, ys) \<in> set (cols df)" "\<not> startswith (rename_label column_mapping l1) '':''"
        "rename_label column_mapping l1 \<noteq> ''dataset_id''"
        "rename_label column_mapping l1 \<noteq> ''ingestion_timestamp''" for l1 ys
      by (rule cleaned_cell_raw [OF assms(1) that(1) refl that(2-4) i])
    from a b c d show ?thesis by blast
  qed
  then have rows: "\<forall>i < nrows df.
         (\<not> truthy (gs ! i) \<longrightarrow>
            cell ?out ''geom'' i = Some PyNone \<and> fst (convert_geometry lib (gs ! i)) = []) \<and>
         (\<forall>e. truthy (gs ! i) \<and> geometry_error lib (gs ! i) = Some e \<longrightarrow>
            cell ?out ''geom'' i = Some PyNone \<and>
            LogWarning (''Failed to convert geometry: '' @ e) \<in> set ?log) \<and>
         (truthy (gs ! i) \<and> geometry_error lib (gs ! i) = None \<longrightarrow>
            (\<exists>wkt. cell ?out ''geom'' i = Some (WKTElement wkt 4326))) \<and>
         (\<forall>(l1, ys) \<in> set (cols df).
            rename_label column_mapping l1 \<noteq> ''geom'' \<longrightarrow>
            \<not> startswith (rename_label column_mapping l1) '':'' \<longrightarrow>
            rename_label column_mapping l1 \<notin> {''dataset_id'', ''ingestion_timestamp''} \<longrightarrow>
            cell ?out (rename_label column_mapping l1) i =
              Some (clean_cell lib (rename_label column_mapping l1) (ys ! i)))"
    by blast
  show ?thesis
    apply (rule exI [where x = "?out"])
    apply (intro conjI)
      apply (rule t)
     apply (rule nrows_cleaned)
    unfolding t fst_conv
    apply (rule rows)
    done
qed

theorem transform_geometry_soft_fail_witness:
  "wf_raw demo_raw_bad_geom \<and> missing_columns demo_self demo_raw_bad_geom = {} \<and>
   (\<exists>out. snd (transform demo_lib demo_self 7 demo_raw_bad_geom) = Inr out \<and>
      nrows out = 3 \<and>
      cell out ''geom'' 0 = Some PyNone \<and>
      cell out ''geom'' 1 = Some PyNone \<and>
      cell out ''nta2020'' 0 = Some (PStr ''BK0101'')) \<and>
   fst (transform demo_lib demo_self 7 demo_raw_bad_geom) =
     [LogInfo ''Transforming 3 NTA records'',
      LogWarning ''Failed to convert geometry: Expecting value'']"
proof -
  define gs :: "(int, string) pyval list"
    where "gs = [PStr ''not json'', PStr [], PStr ''{point}'']"
  define ns :: "(int, string) pyval list"
    where "ns = [PStr ''BK0101'', PStr ''BK0102'', PStr ''BK0103'']"
  have w: "wf_raw demo_raw_bad_geom" by code_simp
  have m: "missing_columns demo_self demo_raw_bad_geom = {}" by code_simp
  have c: "(''the_geom'', gs) \<in> set (cols demo_raw_bad_geom)"
    by (simp add: demo_raw_bad_geom_def gs_def)
  have c': "(''nta2020'', ns) \<in> set (cols demo_raw_bad_geom)"
    by (simp add: demo_raw_bad_geom_def ns_def)
  have r: "rename_label column_mapping ''the_geom'' = ''geom''" by code_simp
  have r': "rename_label column_mapping ''nta2020'' = ''nta2020''" by code_simp
  have n: "nrows demo_raw_bad_geom = 3" by (simp add: demo_raw_bad_geom_def)
  have g0: "truthy (gs ! 0)" "geometry_error demo_lib (gs ! 0) = Some ''Expecting value''"
    by (simp_all add: gs_def geometry_error_def demo_lib_def)
  have g1: "\<not> truthy (gs ! 1)" by (simp add: gs_def)
  have p: "\<not> startswith ''nta2020'' '':''" "''nta2020'' \<noteq> ''geom''"
    "''nta2020'' \<notin> {''dataset_id'', ''ingestion_timestamp''}"
    by (simp_all add: startswith_def)
  have k: "clean_cell demo_lib ''nta2020'' (ns ! 0) = PStr ''BK0101''"
    by (simp add: clean_cell_def numeric_cols_def ns_def)
  have l: "fst (transform demo_lib demo_self 7 demo_raw_bad_geom) =
     [LogInfo ''Transforming 3 NTA records'',
      LogWarning ''Failed to convert geometry: Expecting value'']"
    by code_simp
  from transform_geometry_soft_fail [OF w c r m, where lib = demo_lib and now = 7]
  obtain out where o: "snd (transform demo_lib demo_self 7 demo_raw_bad_geom) = Inr out"
      "nrows out = nrows demo_raw_bad_geom"
    and a: "\<forall>i < nrows demo_raw_bad_geom.
         (\<not> truthy (gs ! i) \<longrightarrow>
            cell out ''geom'' i = Some PyNone \<and> fst (convert_geometry demo_lib (gs ! i)) = []) \<and>
         (\<forall>e. truthy (gs ! i) \<and> geometry_error demo_lib (gs ! i) = Some e \<longrightarrow>
            cell out ''geom'' i = Some PyNone \<and>
            LogWarning (''Failed to convert geometry: '' @ e)
              \<in> set (fst (transform demo_lib demo_self 7 demo_raw_bad_geom))) \<and>
         (truthy (gs ! i) \<and> geometry_error demo_lib (gs ! i) = None \<longrightarrow>
            (\<exists>wkt. cell out ''geom'' i = Some (WKTElement wkt 4326))) \<and>
         (\<forall>(l1, ys) \<in> set (cols demo_raw_bad_geom).
            rename_label column_mapping l1 \<noteq> ''geom'' \<longrightarrow>
            \<not> startswith (rename_label column_mapping l1) '':'' \<longrightarrow>
            rename_label column_mapping l1 \<notin> {''dataset_id'', ''ingestion_timestamp''} \<longrightarrow>
            cell out (rename_label column_mapping l1) i =
              Some (clean_cell demo_lib (rename_label column_mapping l1) (ys ! i)))"
    by auto
  have i0: "0 < nrows demo_raw_bad_geom" and i1: "1 < nrows demo_raw_bad_geom"
    by (simp_all add: n)
  from a i0 g0 have x0: "cell out ''geom'' 0 = Some PyNone" by blast
  from a i1 g1 have x1: "cell out ''geom'' 1 = Some PyNone" by blast
  from a i0 have "\<forall>(l1, ys) \<in> set (cols demo_raw_bad_geom).
            rename_label column_mapping l1 \<noteq> ''geom'' \<longrightarrow>
            \<not> startswith (rename_label column_mapping l1) '':'' \<longrightarrow>
            rename_label column_mapping l1 \<notin> {''dataset_id'', ''ingestion_timestamp''} \<longrightarrow>
            cell out (rename_label column_mapping l1) 0 =
              Some (clean_cell demo_lib (rename_label column_mapping l1) (ys ! 0))"
    by blast
  from bspec [OF this c'] r' p k have x2: "cell out ''nta2020'' 0 = Some (PStr ''BK0101'')"
    by simp
  from w m o n x0 x1 x2 l show ?thesis by simp
qed

text \<open>
  Claim C4 as stated fails for a missing payload: row 1 of the frame has \<^verbatim>\<open>None\<close> as
  its geometry, the returned frame has a null geometry there, and the log holds the
  opening line only, no warning.
\<close>

theorem transform_empty_geometry_counterexample:
  "wf_raw demo_raw \<and>
   cell demo_raw ''the_geom'' 1 = Some PyNone \<and>
   transform demo_lib demo_self 7 demo_raw =
     ([LogInfo ''Transforming 2 NTA records''], Inr demo_cleaned) \<and>
   cell demo_cleaned ''geom'' 1 = Some PyNone"
  by code_simp

lemma clean_cell_explicit:
  "clean_cell lib l v =
     (if l \<in> {''boro_code'', ''shape_leng'', ''shape_area''}
      then (case to_number lib v of Some n \<Rightarrow> PNum n | None \<Rightarrow> NaN)
      else if l = ''geom''
      then (if \<not> truthy v then PyNone
            else case (case v of PStr s \<Rightarrow> json_loads lib s | _ \<Rightarrow> Inr v) of
                   Inl e \<Rightarrow> PyNone
                 | Inr d \<Rightarrow> (case shape_wkt lib d of
                               Inl e \<Rightarrow> PyNone
                             | Inr wkt \<Rightarrow> WKTElement wkt 4326))
      else v)"
proof -
  have g: "snd (convert_geometry lib v) =
       (if \<not> truthy v then PyNone
        else case (case v of PStr s \<Rightarrow> json_loads lib s | _ \<Rightarrow> Inr v) of
               Inl e \<Rightarrow> PyNone
             | Inr d \<Rightarrow> (case shape_wkt lib d of
                           Inl e \<Rightarrow> PyNone
                         | Inr wkt \<Rightarrow> WKTElement wkt 4326))"
    by (simp add: convert_geometry_def split: sum.splits)
  have n: "set numeric_cols = {''boro_code'', ''shape_leng'', ''shape_area''}"
    by (simp add: numeric_cols_def)
  have ng: "''geom'' \<notin> {''boro_code'', ''shape_leng'', ''shape_area''}" by simp
  show ?thesis
  proof (cases "l = ''geom''")
    case True
    with g ng show ?thesis by (simp add: clean_cell_def)
  next
    case False
    then show ?thesis
      unfolding clean_cell_def n to_numeric_def by simp
  qed
qed

text \<open>
  Claim C5. Let a cell of one of the declared numeric columns (\<open>boro_code\<close>,
  \<open>shape_leng\<close>, \<open>shape_area\<close> after the renaming) hold a value that \<^verbatim>\<open>pd.to_numeric\<close>
  cannot read, and let no required column be missing. Then \<open>transform\<close> returns a frame
  with as many rows as the input, and in the row of that cell:
  \<^item> the column holds NaN;
  \<^item> every other declared numeric column holds the number \<^verbatim>\<open>pd.to_numeric\<close> reads from
    its own raw cell (NaN only where that cell cannot be read either);
  \<^item> the geometry holds the conversion of its own payload: null for a payload that is
    false in Python or that \<^verbatim>\<open>json.loads\<close> or \<^verbatim>\<open>shape\<close> refuses, and otherwise the
    \<open>WKTElement\<close> of shapely's text with SRID 4326;
  \<^item> every other field holds its raw value, unchanged.
\<close>

theorem transform_numeric_soft_fail:
  assumes "wf_raw df" and "(l0, xs) \<in> set (cols df)"
    and "rename_label column_mapping l0 = c"
    and "c \<in> {''boro_code'', ''shape_leng'', ''shape_area''}"
    and "i < nrows df" and "to_number lib (xs ! i) = None"
    and "missing_columns self df = {}"
  shows "\<exists>out.
      snd (transform lib self now df) = Inr out \<and>
      nrows out = nrows df \<and>
      cell out c i = Some NaN \<and>
      (\<forall>(l1, ys) \<in> set (cols df).
         rename_label column_mapping l1 \<noteq> c \<longrightarrow>
         \<not> startswith (rename_label column_mapping l1) '':'' \<longrightarrow>
         rename_label column_mapping l1 \<notin> {''dataset_id'', ''ingestion_timestamp''} \<longrightarrow>
         cell out (rename_label column_mapping l1) i =
           Some (if rename_label column_mapping l1 \<in> {''boro_code'', ''shape_leng'', ''shape_area''}
                 then (case to_number lib (ys ! i) of Some n \<Rightarrow> PNum n | None \<Rightarrow> NaN)
                 else if rename_label column_mapping l1 = ''geom''
                 then (if \<not> truthy (ys ! i) then PyNone
                       else case (case ys ! i of PStr s \<Rightarrow> json_loads lib s | _ \<Rightarrow> Inr (ys ! i)) of
                              Inl e \<Rightarrow> PyNone
                            | Inr d \<Rightarrow> (case shape_wkt lib d of
                                          Inl e \<Rightarrow> PyNone
                                        | Inr wkt \<Rightarrow> WKTElement wkt 4326))
                 else ys ! i))"
proof -
  let ?out = "cleaned lib self now df"
  have t: "snd (transform lib self now df) = Inr ?out"
    by (simp add: transform_ok [OF assms(1,7)])
  have p: "\<not> startswith c '':''" "c \<noteq> ''dataset_id''" "c \<noteq> ''ingestion_timestamp''"
    using assms(4) by (auto simp: startswith_def)
  have "cell ?out c i = Some (clean_cell lib c (xs ! i))"
    by (rule cleaned_cell_raw [OF assms(1,2,3) p assms(5)])
  with assms(4,6) have n: "cell ?out c i = Some NaN"
    by (simp only: clean_cell_explicit if_True option.case)
  have d: "cell ?out (rename_label column_mapping l1) i =
           Some (if rename_label column_mapping l1 \<in> {''boro_code'', ''shape_leng'', ''shape_area''}
                 then (case to_number lib (ys ! i) of Some n \<Rightarrow> PNum n | None \<Rightarrow> NaN)
                 else if rename_label column_mapping l1 = ''geom''
                 then (if \<not> truthy (ys ! i) then PyNone
                       else case (case ys ! i of PStr s \<Rightarrow> json_loads lib s | _ \<Rightarrow> Inr (ys ! i)) of
                              Inl e \<Rightarrow> PyNone
                            | Inr d \<Rightarrow> (case shape_wkt lib d of
                                          Inl e \<Rightarrow> PyNone
                                        | Inr wkt \<Rightarrow> WKTElement wkt 4326))
                 else ys ! i)"
    if "(l1, ys) \<in> set (cols df)" "\<not> startswith (rename_label column_mapping l1) '':''"
      "rename_label column_mapping l1 \<noteq> ''dataset_id''"
      "rename_label column_mapping l1 \<noteq> ''ingestion_timestamp''" for l1 ys
    using cleaned_cell_raw [OF assms(1) that(1) refl that(2-4) assms(5), of lib self now]
    by (simp only: clean_cell_explicit)
  then have others: "\<forall>(l1, ys) \<in> set (cols df).
         rename_label column_mapping l1 \<noteq> c \<longrightarrow>
         \<not> startswith (rename_label column_mapping l1) '':'' \<longrightarrow>
         rename_label column_mapping l1 \<notin> {''dataset_id'', ''ingestion_timestamp''} \<longrightarrow>
         cell ?out (rename_label column_mapping l1) i =
           Some (if rename_label column_mapping l1 \<in> {''boro_code'', ''shape_leng'', ''shape_area''}
                 then (case to_number lib (ys ! i) of Some n \<Rightarrow> PNum n | None \<Rightarrow> NaN)
                 else if rename_label column_mapping l1 = ''geom''
                 then (if \<not> truthy (ys ! i) then PyNone
                       else case (case ys ! i of PStr s \<Rightarrow> json_loads lib s | _ \<Rightarrow> Inr (ys ! i)) of
                              Inl e \<Rightarrow> PyNone
                            | Inr d \<Rightarrow> (case shape_wkt lib d of
                                          Inl e \<Rightarrow> PyNone
                                        | Inr wkt \<Rightarrow> WKTElement wkt 4326))
                 else ys ! i)"
    by blast
  show ?thesis
    apply (rule exI [where x = "?out"])
    apply (intro conjI)
       apply (rule t)
      apply (rule nrows_cleaned)
     apply (rule n)
    apply (rule others)
    done
qed

theorem transform_numeric_soft_fail_witness:
  "wf_raw demo_raw_numeric \<and> missing_columns demo_self demo_raw_numeric = {} \<and>
   to_number demo_lib (PStr ''abc'') = None \<and>
   (\<exists>out. snd (transform demo_lib demo_self 7 demo_raw_numeric) = Inr out \<and>
      nrows out = 2 \<and>
      cell out ''boro_code'' 1 = Some NaN \<and>
      cell out ''shape_leng'' 1 = Some (PNum 12) \<and>
      cell out ''nta2020'' 1 = Some (PStr ''BK0102'') \<and>
      cell out ''geom'' 1 = Some (WKTElement ''POINT (0 0)'' 4326))"
proof -
  define xs :: "(int, string) pyval list" where "xs = [PStr ''3'', PStr ''abc'']"
  define ss :: "(int, string) pyval list" where "ss = [PStr ''10'', PStr ''12'']"
  define ns :: "(int, string) pyval list" where "ns = [PStr ''BK0101'', PStr ''BK0102'']"
  define gs :: "(int, string) pyval list" where "gs = [PObj ''point'', PObj ''point'']"
  have w: "wf_raw demo_raw_numeric" by code_simp
  have m: "missing_columns demo_self demo_raw_numeric = {}" by code_simp
  have c: "(''borocode'', xs) \<in> set (cols demo_raw_numeric)"
    by (simp add: demo_raw_numeric_def xs_def)
  have cs: "(''shape_leng'', ss) \<in> set (cols demo_raw_numeric)"
    by (simp add: demo_raw_numeric_def ss_def)
  have cn: "(''nta2020'', ns) \<in> set (cols demo_raw_numeric)"
    by (simp add: demo_raw_numeric_def ns_def)
  have cg: "(''the_geom'', gs) \<in> set (cols demo_raw_numeric)"
    by (simp add: demo_raw_numeric_def gs_def)
  have r: "rename_label column_mapping ''borocode'' = ''boro_code''" by code_simp
  have rs: "rename_label column_mapping ''shape_leng'' = ''shape_leng''" by code_simp
  have rn: "rename_label column_mapping ''nta2020'' = ''nta2020''" by code_simp
  have rg: "rename_label column_mapping ''the_geom'' = ''geom''" by code_simp
  have q: "''boro_code'' \<in> {''boro_code'', ''shape_leng'', ''shape_area''}" by simp
  have i: "1 < nrows demo_raw_numeric" by (simp add: demo_raw_numeric_def)
  have n: "nrows demo_raw_numeric = 2" by (simp add: demo_raw_numeric_def)
  have u: "to_number demo_lib (PStr ''abc'') = None" by code_simp
  then have u': "to_number demo_lib (xs ! 1) = None" by (simp add: xs_def)
  have v: "to_number demo_lib (ss ! 1) = Some 12" unfolding ss_def by code_simp
  have k: "truthy (gs ! 1)" "shape_wkt demo_lib (gs ! 1) = Inr ''POINT (0 0)''"
    by (simp_all add: gs_def demo_lib_def)
  have kc: "(case gs ! 1 of PStr s \<Rightarrow> json_loads demo_lib s | _ \<Rightarrow> Inr (gs ! 1)) = Inr (gs ! 1)"
    by (simp add: gs_def)
  have ps: "\<not> startswith ''shape_leng'' '':''" "\<not> startswith ''nta2020'' '':''"
    "\<not> startswith ''geom'' '':''"
    by (simp_all add: startswith_def)
  from transform_numeric_soft_fail [OF w c r q i u' m, where now = 7]
  obtain out where o: "snd (transform demo_lib demo_self 7 demo_raw_numeric) = Inr out"
      "nrows out = nrows demo_raw_numeric" "cell out ''boro_code'' 1 = Some NaN"
    and a: "\<forall>(l1, ys) \<in> set (cols demo_raw_numeric).
         rename_label column_mapping l1 \<noteq> ''boro_code'' \<longrightarrow>
         \<not> startswith (rename_label column_mapping l1) '':'' \<longrightarrow>
         rename_label column_mapping l1 \<notin> {''dataset_id'', ''ingestion_timestamp''} \<longrightarrow>
         cell out (rename_label column_mapping l1) 1 =
           Some (if rename_label column_mapping l1 \<in> {''boro_code'', ''shape_leng'', ''shape_area''}
                 then (case to_number demo_lib (ys ! 1) of Some n \<Rightarrow> PNum n | None \<Rightarrow> NaN)
                 else if rename_label column_mapping l1 = ''geom''
                 then (if \<not> truthy (ys ! 1) then PyNone
                       else case (case ys ! 1 of PStr s \<Rightarrow> json_loads demo_lib s | _ \<Rightarrow> Inr (ys ! 1)) of
                              Inl e \<Rightarrow> PyNone
                            | Inr d \<Rightarrow> (case shape_wkt demo_lib d of
                                          Inl e \<Rightarrow> PyNone
                                        | Inr wkt \<Rightarrow> WKTElement wkt 4326))
                 else ys ! 1)"
    by auto
  from bspec [OF a cs] rs ps v have x1: "cell out ''shape_leng'' 1 = Some (PNum 12)"
    by simp
  from bspec [OF a cn] rn ps have "cell out ''nta2020'' 1 = Some (ns ! 1)"
    by simp
  then have x2: "cell out ''nta2020'' 1 = Some (PStr ''BK0102'')" by (simp add: ns_def)
  from bspec [OF a cg] rg ps k kc
  have x3: "cell out ''geom'' 1 = Some (WKTElement ''POINT (0 0)'' 4326)"
    by simp
  from w m u o n x1 x2 x3 show ?thesis by simp
qed

subsection \<open>Schema and DDL\<close>

lemma map_of_dict_set:
  "map_of (dict_set d k v) = (map_of d)(k \<mapsto> v)"
proof (cases "k \<in> fst ` set d")
  case True
  have "map_of (map (\<lambda>(k', v'). if k' = k then (k', v) else (k', v')) d) x =
        (if x = k \<and> k \<in> fst ` set d then Some v else map_of d x)" for x
  proof (induction d)
    case Nil
    show ?case by simp
  next
    case (Cons c d)
    obtain a b where c: "c = (a, b)" by (cases c)
    show ?case
    proof (cases "x = k")
      case True
      with Cons c show ?thesis by (cases "a = k") simp_all
    next
      case False
      with Cons c show ?thesis by (cases "a = k") simp_all
    qed
  qed
  with True show ?thesis by (auto simp: dict_set_def)
next
  case False
  then have "map_of d k = None" by (simp add: map_of_eq_None_iff)
  with False show ?thesis
    by (auto simp: dict_set_def map_add_def split: option.splits)
qed

lemma keys_dict_set: "fst ` set (dict_set d k v) = insert k (fst ` set d)"
  by (auto simp: dict_set_def image_iff split: if_splits) force+

lemma map_of_dict_del: "map_of (dict_del d k) = (map_of d)(k := None)"
proof
  fix x
  show "map_of (dict_del d k) x = ((map_of d)(k := None)) x"
    by (induction d) (auto simp: dict_del_def)
qed

text \<open>
  Claim C6. \<open>get_schema\<close> is a function of the transformer's configuration alone: it reads
  no clock, no database and no frame, and returns a new value. The column mapping of its
  result is the mapping of the declared columns (the dump of the configured schema) with
  \<open>dataset_id\<close> bound to a non-nullable \<^verbatim>\<open>VARCHAR(20)\<close> and \<open>ingestion_timestamp\<close> bound to
  a non-nullable \<^verbatim>\<open>TIMESTAMP\<close> with default \<^verbatim>\<open>CURRENT_TIMESTAMP\<close>; its keys are the declared
  names and these two; table name, constraints and indexes are those of the dump.
\<close>

theorem get_schema_columns:
  "map_of (columns (get_schema model_dump self)) =
     (map_of (columns (model_dump (data_schema (config self)))))
       (''dataset_id'' \<mapsto> [(''type'', SStr ''VARCHAR(20)''), (''nullable'', SBool False)],
        ''ingestion_timestamp'' \<mapsto>
          [(''type'', SStr ''TIMESTAMP''), (''default'', SStr ''CURRENT_TIMESTAMP''),
           (''nullable'', SBool False)]) \<and>
   fst ` set (columns (get_schema model_dump self)) =
     fst ` set (columns (model_dump (data_schema (config self)))) \<union>
       {''dataset_id'', ''ingestion_timestamp''} \<and>
   table_name (get_schema model_dump self) = table_name (model_dump (data_schema (config self))) \<and>
   constraints (get_schema model_dump self) = constraints (model_dump (data_schema (config self))) \<and>
   indexes (get_schema model_dump self) = indexes (model_dump (data_schema (config self)))"
  by (auto simp: get_schema_def Let_def map_of_dict_set keys_dict_set)

text \<open>
  Claim C10. In the fragment \<^verbatim>\<open>create_table_from_schema\<close> builds for a column with a
  \<^verbatim>\<open>type\<close>:
  \<^item> a default that is false in Python (absent, \<^verbatim>\<open>None\<close>, \<^verbatim>\<open>0\<close>, the empty string,
    \<^verbatim>\<open>False\<close>) gives the fragment of the same column with the key \<^verbatim>\<open>default\<close> deleted,
    which is name, type and constraint and nothing more;
  \<^item> a default that is true gives that fragment followed by the \<^verbatim>\<open>DEFAULT\<close> clause;
  \<^item> a column marked \<^verbatim>\<open>primary_key\<close> gets \<^verbatim>\<open>PRIMARY KEY\<close> and the \<^verbatim>\<open>DEFAULT\<close> clause
    only, whatever \<^verbatim>\<open>nullable\<close> says: its fragment does not change when \<^verbatim>\<open>nullable\<close>
    is set to any other value.
\<close>

theorem column_fragment_default_and_key:
  assumes "map_of d ''type'' = Some t"
  shows "(\<not> sv_truthy (dict_get d ''default'' SNone) \<longrightarrow>
            column_fragment n d = column_fragment n (dict_del d ''default'') \<and>
            column_fragment n d =
              Inr (n @ '' '' @ sv_str t @
                   (if sv_truthy (dict_get d ''primary_key'' (SBool False)) then '' PRIMARY KEY''
                    else if sv_truthy (dict_get d ''nullable'' (SBool True)) then []
                    else '' NOT NULL''))) \<and>
         (sv_truthy (dict_get d ''default'' SNone) \<longrightarrow>
            column_fragment n d =
              map_sum id (\<lambda>s. s @ '' DEFAULT '' @ sv_str (dict_get d ''default'' SNone))
                (column_fragment n (dict_del d ''default''))) \<and>
         (sv_truthy (dict_get d ''primary_key'' (SBool False)) \<longrightarrow>
            column_fragment n d =
              Inr (n @ '' '' @ sv_str t @ '' PRIMARY KEY'' @
                   (if sv_truthy (dict_get d ''default'' SNone)
                    then '' DEFAULT '' @ sv_str (dict_get d ''default'' SNone) else [])) \<and>
            (\<forall>v. column_fragment n (dict_set d ''nullable'' v) = column_fragment n d))"
proof -
  have del: "dict_get (dict_del d ''default'') k x =
               (if k = ''default'' then x else dict_get d k x)" for k x
    by (simp add: dict_get_def map_of_dict_del)
  have set: "dict_get (dict_set d ''nullable'' v) k x =
               (if k = ''nullable'' then v else dict_get d k x)" for k x v
    by (simp add: dict_get_def map_of_dict_set)
  have ty: "map_of (dict_del d ''default'') ''type'' = Some t"
    "map_of (dict_set d ''nullable'' v) ''type'' = Some t" for v
    using assms by (simp_all add: map_of_dict_del map_of_dict_set)
  show ?thesis
    using assms ty by (simp add: column_fragment_def Let_def del set)
qed

theorem column_fragment_default_and_key_witness:
  "map_of [(''type'', SStr ''INTEGER''), (''nullable'', SBool False), (''default'', SInt 0),
           (''primary_key'', SBool True)] ''type'' = Some (SStr ''INTEGER'') \<and>
   column_fragment ''gid''
     [(''type'', SStr ''INTEGER''), (''nullable'', SBool False), (''default'', SInt 0),
      (''primary_key'', SBool True)] = Inr ''gid INTEGER PRIMARY KEY'' \<and>
   column_fragment ''gid''
     [(''type'', SStr ''INTEGER''), (''nullable'', SBool False), (''default'', SInt 0),
      (''primary_key'', SBool True)] =
   column_fragment ''gid''
     (dict_del [(''type'', SStr ''INTEGER''), (''nullable'', SBool False), (''default'', SInt 0),
                (''primary_key'', SBool True)] ''default'')"
proof -
  let ?d = "[(''type'', SStr ''INTEGER''), (''nullable'', SBool False), (''default'', SInt 0),
             (''primary_key'', SBool True)]"
  have t: "map_of ?d ''type'' = Some (SStr ''INTEGER'')" by simp
  have f: "\<not> sv_truthy (dict_get ?d ''default'' SNone)" by (simp add: dict_get_def)
  have k: "sv_truthy (dict_get ?d ''primary_key'' (SBool False))" by (simp add: dict_get_def)
  note th = column_fragment_default_and_key [OF t, of "''gid''"]
  from th f have a: "column_fragment ''gid'' ?d = column_fragment ''gid'' (dict_del ?d ''default'')"
    by blast
  from th k have "column_fragment ''gid'' ?d =
      Inr (''gid'' @ '' '' @ sv_str (SStr ''INTEGER'') @ '' PRIMARY KEY'' @
           (if sv_truthy (dict_get ?d ''default'' SNone)
            then '' DEFAULT '' @ sv_str (dict_get ?d ''default'' SNone) else []))"
    by blast
  with f have b: "column_fragment ''gid'' ?d = Inr ''gid INTEGER PRIMARY KEY''"
    by simp
  from t a b show ?thesis by blast
qed

subsection \<open>Storage\<close>

lemma upsert_rows_trace:
  "upsert_rows run tbl u rs c = (err, c') \<Longrightarrow>
     conn_committed c' = conn_committed c \<and> conn_commits c' = conn_commits c \<and>
     (\<exists>k \<le> length rs.
        conn_executed c' =
          conn_executed c @ take k (map (\<lambda>r. (upsert_sql tbl (map fst r) u, r)) rs) \<and>
        (err = None \<longleftrightarrow> k = length rs))"
proof (induction rs arbitrary: c)
  case Nil
  then show ?case by simp
next
  case (Cons r rs)
  show ?case
  proof (cases "execute run c (upsert_sql tbl (map fst r) u) r")
    case (Inl e)
    with Cons.prems have "err = Some e" "c' = c" by simp_all
    then show ?thesis by (intro conjI exI [where x = 0]) simp_all
  next
    case (Inr c1)
    then have c1: "conn_committed c1 = conn_committed c" "conn_commits c1 = conn_commits c"
        "conn_executed c1 = conn_executed c @ [(upsert_sql tbl (map fst r) u, r)]"
      by (auto simp: execute_def split: sum.splits)
    from Inr Cons.prems have "upsert_rows run tbl u rs c1 = (err, c')" by simp
    from Cons.IH [OF this] obtain k where k: "k \<le> length rs"
        "conn_executed c' =
           conn_executed c1 @ take k (map (\<lambda>r. (upsert_sql tbl (map fst r) u, r)) rs)"
        "err = None \<longleftrightarrow> k = length rs"
      and s: "conn_committed c' = conn_committed c1" "conn_commits c' = conn_commits c1"
      by blast
    from k c1 s show ?thesis
      by (intro conjI exI [where x = "Suc k"]) simp_all
  qed
qed

lemma length_to_records: "length (to_records df) = nrows df"
  by (simp add: to_records_def)

text \<open>
  Claim C3, as amended. \<open>upsert_data\<close> has one statement to send per record, each the
  single-row \<^verbatim>\<open>INSERT ... ON CONFLICT ... DO UPDATE\<close> for that record. On its connection
  it commits at most once, and it commits exactly when every one of these statements has
  been executed, that is after the last row. When a statement fails, the statements
  executed so far are a proper initial part of the list, nothing has been committed, the
  call raises, and the database is left as it was before the call: there is no partial
  write. A call that returns has committed once and returns the number of rows.
\<close>

theorem upsert_data_single_commit:
  "let out = upsert_data run now df tbl ds_id u db;
       conn = data_conn out;
       stmts = upsert_statements tbl u df
   in length stmts = nrows df \<and>
      conn_commits conn \<le> 1 \<and>
      (conn_commits conn = 1 \<longleftrightarrow> conn_executed conn = stmts) \<and>
      (conn_commits conn = 0 \<longrightarrow>
         (\<exists>e. result out = Inl e) \<and> db_after out = db \<and>
         (\<exists>k < length stmts. conn_executed conn = take k stmts)) \<and>
      (\<forall>n. result out = Inr n \<longrightarrow> n = nrows df \<and> conn_commits conn = 1)"
proof -
  let ?stmts = "map (\<lambda>r. (upsert_sql tbl (map fst r) u, r)) (to_records df)"
  obtain err c where l: "upsert_rows run tbl u (to_records df) (connect db) = (err, c)"
    by (cases "upsert_rows run tbl u (to_records df) (connect db)")
  from upsert_rows_trace [OF l] obtain k where k: "k \<le> length (to_records df)"
      "conn_executed c = take k ?stmts" "err = None \<longleftrightarrow> k = length (to_records df)"
    and s: "conn_committed c = db" "conn_commits c = 0"
    by (auto simp: connect_def)
  have len: "length ?stmts = nrows df" by (simp add: length_to_records)
  show ?thesis
  proof (cases err)
    case (Some e)
    with k have kl: "k < length ?stmts" by simp
    with k(2) have "length (conn_executed c) < length ?stmts" by simp
    then have ne: "conn_executed c \<noteq> ?stmts" by auto
    from l Some have out: "upsert_data run now df tbl ds_id u db =
        \<lparr>result = Inl e, db_after = close_connection c, data_conn = c\<rparr>"
      by (simp add: upsert_data_def Let_def)
    have part: "\<exists>k < length ?stmts. conn_executed c = take k ?stmts"
      using kl k(2) by blast
    show ?thesis
      unfolding Let_def upsert_statements_def out
      using s ne part len by (simp add: close_connection_def)
  next
    case None
    with k have e: "conn_executed c = ?stmts" by simp
    from l None have dc: "data_conn (upsert_data run now df tbl ds_id u db) = commit c"
      by (simp add: upsert_data_def Let_def split: sum.splits)
    from l None have rn: "\<forall>n. result (upsert_data run now df tbl ds_id u db) = Inr n \<longrightarrow> n = nrows df"
      by (simp add: upsert_data_def Let_def split: sum.splits)
    have cc: "conn_commits (commit c) = 1" "conn_executed (commit c) = ?stmts"
      using s e by (simp_all add: commit_def)
    show ?thesis
      unfolding Let_def upsert_statements_def dc
      using cc rn len by simp
  qed
qed

theorem upsert_data_single_commit_witness:
  "result (upsert_data demo_run 7 demo_batch ''ntas_2020'' ''9nt8-h7nd'' [''nta2020''] demo_db) =
     Inr 1 \<and>
   conn_commits
     (data_conn (upsert_data demo_run 7 demo_batch ''ntas_2020'' ''9nt8-h7nd'' [''nta2020'']
        demo_db)) = 1 \<and>
   conn_executed
     (data_conn (upsert_data demo_run 7 demo_batch ''ntas_2020'' ''9nt8-h7nd'' [''nta2020'']
        demo_db)) = upsert_statements ''ntas_2020'' [''nta2020''] demo_batch \<and>
   row_count
     (db_after (upsert_data demo_run 7 demo_batch ''ntas_2020'' ''9nt8-h7nd'' [''nta2020'']
        demo_db)) ''ntas_2020'' = Some 3"
proof -
  let ?out = "upsert_data demo_run 7 demo_batch ''ntas_2020'' ''9nt8-h7nd'' [''nta2020''] demo_db"
  have r: "result ?out = Inr 1" by code_simp
  have n: "row_count (db_after ?out) ''ntas_2020'' = Some 3" by code_simp
  note th = upsert_data_single_commit [where run = demo_run and now = 7 and df = demo_batch
      and tbl = "''ntas_2020''" and ds_id = "''9nt8-h7nd''" and u = "[''nta2020'']"
      and db = demo_db, unfolded Let_def]
  from th r have c: "conn_commits (data_conn ?out) = 1" by blast
  with th have "conn_executed (data_conn ?out) = upsert_statements ''ntas_2020'' [''nta2020''] demo_batch"
    by blast
  with r c n show ?thesis by blast
qed

text \<open>
  Claim C3 as stated fails in its last part. The second record of the batch is refused by
  the database; the statement of the first record had been executed; the call raises; and
  the destination table holds the two rows it held before the call, not the first record.
\<close>

theorem upsert_data_partial_write_counterexample:
  "result (upsert_data demo_run 7 demo_batch_bad ''ntas_2020'' ''9nt8-h7nd'' [''nta2020'']
      demo_db) =
     Inl (DatabaseError ''null value in column nta2020 violates not-null constraint'') \<and>
   length (conn_executed
     (data_conn (upsert_data demo_run 7 demo_batch_bad ''ntas_2020'' ''9nt8-h7nd''
        [''nta2020''] demo_db))) = 1 \<and>
   tables (db_after (upsert_data demo_run 7 demo_batch_bad ''ntas_2020'' ''9nt8-h7nd''
      [''nta2020''] demo_db)) ''ntas_2020'' =
     Some [[(''nta2020'', PStr ''MN0101''), (''nta_name'', PStr ''Marble Hill'')],
           [(''nta2020'', PStr ''MN0102''), (''nta_name'', PStr ''Inwood'')]] \<and>
   tables demo_db ''ntas_2020'' =
     Some [[(''nta2020'', PStr ''MN0101''), (''nta_name'', PStr ''Marble Hill'')],
           [(''nta2020'', PStr ''MN0102''), (''nta_name'', PStr ''Inwood'')]]"
  by code_simp

lemma update_metadata_Inr:
  assumes "update_metadata now ds_id tbl n db = Inr db'"
  shows "tables db' = tables db \<and>
         (\<exists>r. metadata_record db' ds_id = Some r \<and> md_record_count r = n \<and>
              md_status r = ''success'' \<and> md_last_ingestion r = now)"
proof (cases "dataset_metadata db")
  case None
  with assms show ?thesis by (simp add: update_metadata_def)
next
  case (Some m)
  with assms show ?thesis
    by (cases "m ds_id") (auto simp: update_metadata_def metadata_record_def)
qed

lemma to_sql_Inr:
  assumes "to_sql rejects df tbl if_exists db = Inr db'"
  shows "\<exists>kept. tables db' tbl = Some (kept @ to_records df)"
  using assms by (auto simp: to_sql_def Let_def split: if_splits list.splits)

text \<open>
  Claim C7, as amended. When \<open>store_data\<close> returns, it returns the number of rows of the
  frame, the destination table ends with the records of the frame, and the metadata row
  of the dataset holds that same number (the rows written by this call, not the rows the
  table now has), the status \<^verbatim>\<open>success\<close> and the time of the update.
\<close>

theorem store_data_metadata:
  assumes "store_data rejects now df tbl ds_id if_exists db = (Inr n, db')"
  shows "n = nrows df \<and>
         (\<exists>kept. tables db' tbl = Some (kept @ to_records df)) \<and>
         (\<exists>r. metadata_record db' ds_id = Some r \<and> md_record_count r = nrows df \<and>
              md_status r = ''success'' \<and> md_last_ingestion r = now)"
proof (cases "to_sql rejects df tbl if_exists db")
  case (Inl e)
  with assms show ?thesis by (simp add: store_data_def)
next
  case (Inr db1)
  show ?thesis
  proof (cases "update_metadata now ds_id tbl (nrows df) db1")
    case (Inl e)
    with Inr assms show ?thesis by (simp add: store_data_def)
  next
    case m: (Inr db2)
    with Inr assms have e: "n = nrows df" "db' = db2" by (simp_all add: store_data_def)
    from update_metadata_Inr [OF m] to_sql_Inr [OF Inr] e show ?thesis by simp
  qed
qed

theorem store_data_metadata_witness:
  "fst (store_data demo_rejects 7 demo_batch ''ntas_2020'' ''9nt8-h7nd'' ''append'' demo_db) =
     Inr 1 \<and>
   nrows demo_batch = 1 \<and>
   (\<exists>r. metadata_record
           (snd (store_data demo_rejects 7 demo_batch ''ntas_2020'' ''9nt8-h7nd'' ''append''
              demo_db)) ''9nt8-h7nd'' = Some r \<and>
        md_record_count r = 1 \<and> md_status r = ''success'')"
proof -
  let ?s = "store_data demo_rejects 7 demo_batch ''ntas_2020'' ''9nt8-h7nd'' ''append'' demo_db"
  have f: "fst ?s = Inr 1" by code_simp
  then have p: "?s = (Inr 1, snd ?s)" by (metis prod.collapse)
  have n: "nrows demo_batch = 1" by (simp add: demo_batch_def)
  from store_data_metadata [OF p] f n show ?thesis by auto
qed

text \<open>
  Claim C7 as stated fails in append mode on a table that already has rows: the table
  held two rows, the call appends one and returns 1, the table now has three rows, and
  the metadata row records 1.
\<close>

theorem store_data_total_count_counterexample:
  "row_count demo_db ''ntas_2020'' = Some 2 \<and>
   fst (store_data demo_rejects 7 demo_batch ''ntas_2020'' ''9nt8-h7nd'' ''append'' demo_db) =
     Inr 1 \<and>
   row_count
     (snd (store_data demo_rejects 7 demo_batch ''ntas_2020'' ''9nt8-h7nd'' ''append'' demo_db))
     ''ntas_2020'' = Some 3 \<and>
   map_option md_record_count
     (metadata_record
        (snd (store_data demo_rejects 7 demo_batch ''ntas_2020'' ''9nt8-h7nd'' ''append''
           demo_db)) ''9nt8-h7nd'') = Some 1"
  by code_simp

subsection \<open>The endpoint\<close>

lemma try_block_result:
  "try_block W \<lparr>engine = None\<rparr> = (lg, res, st) \<Longrightarrow>
     res = (case try_raises W of
              Some x \<Rightarrow> Inl x
            | None \<Rightarrow> scalar_result W) \<and>
     (case engine st of
        None \<Rightarrow> create_engine_raises W \<noteq> None
      | Some e \<Rightarrow> open_connections e = 0 \<and> dispose_calls e = 0)"
  by (auto simp: try_block_def get_engine_def run_query_def try_raises_def Let_def
      split: option.splits sum.splits)

lemma close_disposes:
  "close st = (lg, st') \<Longrightarrow>
     (case engine st of
        None \<Rightarrow> engine st' = None \<and> lg = []
      | Some e \<Rightarrow>
          engine st' = Some (e\<lparr>dispose_calls := dispose_calls e + 1\<rparr>) \<and>
          lg = [LogInfo ''Database connection closed''])"
  by (auto simp: close_def split: option.splits)

text \<open>
  Claim C8. Whatever the outside does:
  \<^item> when a call of the \<^verbatim>\<open>try\<close> block (the query in particular) raises an
    \<^verbatim>\<open>Exception\<close>, the handler raises the HTTP error 500 whose detail is the message of
    that exception, and logs the error;
  \<^item> when nothing is raised, the handler returns what the query returned;
  \<^item> on every way out, \<^verbatim>\<open>storage.close()\<close> has run last: if an engine was created it has
    been disposed exactly once, none of its connections is still checked out, and the
    last line of the log is the one \<^verbatim>\<open>close\<close> writes; there is no engine only if
    \<^verbatim>\<open>create_engine\<close> itself raised.
\<close>

theorem get_food_gaps_error_and_cleanup:
  "case get_food_gaps W of
     (resp, st, lg) \<Rightarrow>
       (\<forall>m. try_raises W = Some (Exc m) \<longrightarrow>
          resp = HTTPError 500 m \<and> LogError (''Error fetching food gaps: '' @ m) \<in> set lg) \<and>
       (\<forall>r. try_raises W = None \<and> scalar_result W = Inr r \<longrightarrow> resp = Returned r) \<and>
       (case engine st of
          None \<Rightarrow> create_engine_raises W \<noteq> None
        | Some e \<Rightarrow>
            dispose_calls e = 1 \<and> open_connections e = 0 \<and>
            lg \<noteq> [] \<and> last lg = LogInfo ''Database connection closed'')"
proof -
  obtain log1 res st1 where t: "try_block W \<lparr>engine = None\<rparr> = (log1, res, st1)"
    by (cases "try_block W \<lparr>engine = None\<rparr>")
  obtain log3 st2 where c: "close st1 = (log3, st2)" by (cases "close st1")
  note tb = try_block_result [OF t]
  note cd = close_disposes [OF c]
  define resp :: "'a response" where
    "resp = (case res of Inr r \<Rightarrow> Returned r | Inl (Exc m) \<Rightarrow> HTTPError 500 m
             | Inl (NonExc m) \<Rightarrow> Uncaught (NonExc m))"
  define log2 where
    "log2 = (case res of Inr r \<Rightarrow> [] | Inl (Exc m) \<Rightarrow> [LogError (''Error fetching food gaps: '' @ m)]
             | Inl (NonExc m) \<Rightarrow> [])"
  have g: "get_food_gaps W = (resp, st2, log1 @ log2 @ log3)"
    by (simp add: get_food_gaps_def t c resp_def log2_def split: sum.splits failure.splits)
  have a: "resp = HTTPError 500 m \<and> LogError (''Error fetching food gaps: '' @ m) \<in> set (log1 @ log2 @ log3)"
    if "try_raises W = Some (Exc m)" for m
    using that tb by (simp add: resp_def log2_def)
  have b: "resp = Returned r" if "try_raises W = None \<and> scalar_result W = Inr r" for r
    using that tb by (simp add: resp_def)
  have d: "case engine st2 of
          None \<Rightarrow> create_engine_raises W \<noteq> None
        | Some e \<Rightarrow>
            dispose_calls e = 1 \<and> open_connections e = 0 \<and>
            log1 @ log2 @ log3 \<noteq> [] \<and> last (log1 @ log2 @ log3) = LogInfo ''Database connection closed''"
    using tb cd by (cases "engine st1") auto
  from a b d show ?thesis unfolding g by simp
qed

theorem get_food_gaps_error_and_cleanup_witness:
  "try_raises demo_world = Some (Exc ''relation food_supply_gaps does not exist'') \<and>
   fst (get_food_gaps demo_world) = HTTPError 500 ''relation food_supply_gaps does not exist'' \<and>
   engine (fst (snd (get_food_gaps demo_world))) =
     Some \<lparr>open_connections = 0, dispose_calls = 1\<rparr>"
proof -
  have r: "try_raises demo_world = Some (Exc ''relation food_supply_gaps does not exist'')"
    by (simp add: try_raises_def demo_world_def)
  have e: "engine (fst (snd (get_food_gaps demo_world))) =
     Some \<lparr>open_connections = 0, dispose_calls = 1\<rparr>"
    by code_simp
  obtain resp st lg where g: "get_food_gaps demo_world = (resp, st, lg)"
    by (cases "get_food_gaps demo_world")
  from get_food_gaps_error_and_cleanup [of demo_world] g r
  have "resp = HTTPError 500 ''relation food_supply_gaps does not exist''"
    by simp
  with g r e show ?thesis by simp
qed

end
